theory Spec2Isabelle
  imports Main
begin

section \<open>JavaScript strings\<close>

text \<open>
  A JavaScript string is modelled as a \<^typ>\<open>string\<close> holding its UTF-8 bytes (a lone
  surrogate is held as the three bytes of its code unit). The texts of the palette
  script that are not ASCII (the emoji of the status banners) are written out as bytes.
\<close>

text \<open>
  \<open>String.prototype.trim\<close> strips, at both ends, the code points that ECMAScript calls
  WhiteSpace (TAB, VT, FF, SP, NBSP, ZWNBSP and the other space separators) and
  LineTerminator (LF, CR, LS, PS). No code below is a prefix of another.
\<close>

definition whitespace_codes :: "string list" where
  "whitespace_codes =
     [[CHR 0x09], [CHR 0x0A], [CHR 0x0B], [CHR 0x0C], [CHR 0x0D], [CHR 0x20],
      [CHR 0xC2, CHR 0xA0],
      [CHR 0xE1, CHR 0x9A, CHR 0x80],
      [CHR 0xE2, CHR 0x80, CHR 0x80], [CHR 0xE2, CHR 0x80, CHR 0x81],
      [CHR 0xE2, CHR 0x80, CHR 0x82], [CHR 0xE2, CHR 0x80, CHR 0x83],
      [CHR 0xE2, CHR 0x80, CHR 0x84], [CHR 0xE2, CHR 0x80, CHR 0x85],
      [CHR 0xE2, CHR 0x80, CHR 0x86], [CHR 0xE2, CHR 0x80, CHR 0x87],
      [CHR 0xE2, CHR 0x80, CHR 0x88], [CHR 0xE2, CHR 0x80, CHR 0x89],
      [CHR 0xE2, CHR 0x80, CHR 0x8A],
      [CHR 0xE2, CHR 0x80, CHR 0xA8], [CHR 0xE2, CHR 0x80, CHR 0xA9],
      [CHR 0xE2, CHR 0x80, CHR 0xAF],
      [CHR 0xE2, CHR 0x81, CHR 0x9F],
      [CHR 0xE3, CHR 0x80, CHR 0x80],
      [CHR 0xEF, CHR 0xBB, CHR 0xBF]]"

text \<open>The length of the code of \<open>codes\<close> that \<open>s\<close> starts with, 0 when there is none.\<close>

definition leading :: "string list \<Rightarrow> string \<Rightarrow> nat" where
  "leading codes s =
     (case filter (\<lambda>w. take (length w) s = w) codes of [] \<Rightarrow> 0 | w # _ \<Rightarrow> length w)"

lemma leading_le: "leading codes s \<le> length s"
proof (cases "filter (\<lambda>w. take (length w) s = w) codes")
  case Nil
  then show ?thesis by (simp add: leading_def)
next
  case (Cons w ws)
  then have "w \<in> set (filter (\<lambda>w. take (length w) s = w) codes)" by simp
  then have "take (length w) s = w" by simp
  then have "length (take (length w) s) = length w" by simp
  then have "length w \<le> length s" by simp
  with Cons show ?thesis by (simp add: leading_def)
qed

lemma drop_leading_shorter:
  assumes "leading codes s \<noteq> 0"
  shows "length (drop (leading codes s) s) < length s"
proof -
  have "leading codes s \<le> length s" by (rule leading_le)
  with assms show ?thesis by simp
qed

function strip :: "string list \<Rightarrow> string \<Rightarrow> string" where
  "strip codes s =
     (if leading codes s = 0 then s else strip codes (drop (leading codes s) s))"
  by pat_completeness auto
termination
  by (relation "measure (\<lambda>(codes, s). length s)") (simp_all add: drop_leading_shorter del: length_drop)

declare strip.simps [simp del]

definition trimStart :: "string \<Rightarrow> string" where
  "trimStart s = strip whitespace_codes s"

definition trimEnd :: "string \<Rightarrow> string" where
  "trimEnd s = rev (strip (map rev whitespace_codes) (rev s))"

definition trim :: "string \<Rightarrow> string" where
  "trim s = trimEnd (trimStart s)"

text \<open>A string that is empty or made of white space only.\<close>

function blank :: "string \<Rightarrow> bool" where
  "blank s =
     (if s = [] then True
      else if leading whitespace_codes s = 0 then False
      else blank (drop (leading whitespace_codes s) s))"
  by pat_completeness auto
termination
  by (relation "measure length") (simp_all add: drop_leading_shorter del: length_drop)

declare blank.simps [simp del]

text \<open>
  \<open>String.prototype.replace\<close> with a string pattern and a replacement without \<open>$\<close>:
  the first occurrence of the pattern is replaced, the rest is kept.
\<close>

fun replace_first :: "string \<Rightarrow> string \<Rightarrow> string \<Rightarrow> string" where
  "replace_first pat rep [] = (if pat = [] then rep else [])"
| "replace_first pat rep (c # s) =
     (if take (length pat) (c # s) = pat then rep @ drop (length pat) (c # s)
      else c # replace_first pat rep s)"

text \<open>
  The decimal digits of a number that is not negative, and the text of an integer as string
  concatenation prints a safe integer.
\<close>

function digits :: "int \<Rightarrow> string" where
  "digits n =
     (if n < 10 then [char_of (48 + n)] else digits (n div 10) @ [char_of (48 + n mod 10)])"
  by pat_completeness auto
termination
  by (relation "measure nat") auto

declare digits.simps [simp del]

definition show_int :: "int \<Rightarrow> string" where
  "show_int i = (if i < 0 then CHR ''-'' # digits (- i) else digits i)"

text \<open>\<open>Array.prototype.join\<close> on texts.\<close>

fun join :: "string \<Rightarrow> string list \<Rightarrow> string" where
  "join sep [] = []"
| "join sep [x] = x"
| "join sep (x # y # ys) = x @ sep @ join sep (y # ys)"

section \<open>JSON values, \<open>JSON.parse\<close> and \<open>JSON.stringify\<close>\<close>

text \<open>
  A value that \<open>JSON.parse\<close> returns. \<open>JNumber m e\<close> is the decimal \<open>m \<times> 10\<^sup>e\<close> that the
  source text denotes. The members of an object are held in the order in which the engine
  enumerates them: array-index keys in ascending order first, the other keys in the order in
  which they were first written; a repeated key overwrites the value.
\<close>

datatype json =
    JNull
  | JBool bool
  | JNumber int int
  | JString string
  | JArray "json list"
  | JObject "(string \<times> json) list"

text \<open>
  What can be thrown or handed to a rejection handler: the two exceptions of the engine that
  the script can meet, and the reason with which the host rejects a bridge call.
\<close>

datatype error = SyntaxError | TypeError | BridgeFailure

datatype token =
    TLBrace | TRBrace | TLBracket | TRBracket | TColon | TComma
  | TString string | TNumber int int | TTrue | TFalse | TNull

definition is_digit :: "char \<Rightarrow> bool" where
  "is_digit c = (48 \<le> (of_char c :: int) \<and> (of_char c :: int) \<le> 57)"

definition digit_val :: "char \<Rightarrow> int" where
  "digit_val c = of_char c - 48"

definition int_of_digits :: "string \<Rightarrow> int" where
  "int_of_digits ds = foldl (\<lambda>n c. 10 * n + digit_val c) 0 ds"

definition hex_val :: "char \<Rightarrow> int option" where
  "hex_val c =
     (let n = (of_char c :: int)
      in if 48 \<le> n \<and> n \<le> 57 then Some (n - 48)
         else if 65 \<le> n \<and> n \<le> 70 then Some (n - 55)
         else if 97 \<le> n \<and> n \<le> 102 then Some (n - 87)
         else None)"

fun hex4 :: "string \<Rightarrow> int option" where
  "hex4 [a, b, c, d] =
     (case (hex_val a, hex_val b, hex_val c, hex_val d) of
        (Some x, Some y, Some z, Some w) \<Rightarrow> Some (((x * 16 + y) * 16 + z) * 16 + w)
      | _ \<Rightarrow> None)"
| "hex4 _ = None"

text \<open>The UTF-8 bytes of a code point (of a lone surrogate: of its code unit).\<close>

definition utf8 :: "int \<Rightarrow> string" where
  "utf8 n =
     (if n < 0x80 then [char_of n]
      else if n < 0x800 then [char_of (0xC0 + n div 64), char_of (0x80 + n mod 64)]
      else if n < 0x10000 then
        [char_of (0xE0 + n div 4096), char_of (0x80 + n div 64 mod 64), char_of (0x80 + n mod 64)]
      else
        [char_of (0xF0 + n div 262144), char_of (0x80 + n div 4096 mod 64),
         char_of (0x80 + n div 64 mod 64), char_of (0x80 + n mod 64)])"

text \<open>
  What follows \<open>\u\<close> in a string: four hex digits; a high surrogate directly followed by
  an escaped low surrogate is one code point.
\<close>

definition unicode_escape :: "string \<Rightarrow> (string \<times> string) option" where
  "unicode_escape s =
     (case hex4 (take 4 s) of
        None \<Rightarrow> None
      | Some hi \<Rightarrow>
          if 0xD800 \<le> hi \<and> hi < 0xDC00 \<and> take 2 (drop 4 s) = [CHR 0x5C, CHR ''u''] then
            (case hex4 (take 4 (drop 6 s)) of
               None \<Rightarrow> Some (utf8 hi, drop 4 s)
             | Some lo \<Rightarrow>
                 if 0xDC00 \<le> lo \<and> lo < 0xE000
                 then Some (utf8 (0x10000 + (hi - 0xD800) * 0x400 + (lo - 0xDC00)), drop 10 s)
                 else Some (utf8 hi, drop 4 s))
          else Some (utf8 hi, drop 4 s))"

definition simple_escape :: "char \<Rightarrow> char option" where
  "simple_escape e =
     (if e = CHR 0x22 then Some (CHR 0x22)
      else if e = CHR 0x5C then Some (CHR 0x5C)
      else if e = CHR ''/'' then Some (CHR ''/'')
      else if e = CHR ''b'' then Some (CHR 0x08)
      else if e = CHR ''f'' then Some (CHR 0x0C)
      else if e = CHR ''n'' then Some (CHR 0x0A)
      else if e = CHR ''r'' then Some (CHR 0x0D)
      else if e = CHR ''t'' then Some (CHR 0x09)
      else None)"

lemma hex4_length: "hex4 xs = Some n \<Longrightarrow> length xs = 4"
  by (induction xs rule: hex4.induct) simp_all

lemma unicode_escape_shorter:
  assumes "unicode_escape s = Some (bs, r)"
  shows "length r < length s"
proof -
  from assms obtain hi where hi: "hex4 (take 4 s) = Some hi"
    by (auto simp: unicode_escape_def split: option.splits)
  then have "length (take 4 s) = 4" by (rule hex4_length)
  then have len: "4 \<le> length s" by simp
  from assms hi have "r = drop 4 s \<or> r = drop 10 s"
    by (auto simp: unicode_escape_def split: option.splits if_splits)
  with len show ?thesis by auto
qed

text \<open>
  The characters of a string after its opening quote, up to the closing one: the text of the
  string and what follows it. A raw control character ends the parse.
\<close>

function lex_chars :: "string \<Rightarrow> (string \<times> string) option" where
  "lex_chars [] = None"
| "lex_chars (c # cs) =
     (if c = CHR 0x22 then Some ([], cs)
      else if c = CHR 0x5C then
        (case cs of
           [] \<Rightarrow> None
         | e # rest \<Rightarrow>
             if e = CHR ''u'' then
               (case unicode_escape rest of
                  None \<Rightarrow> None
                | Some (bs, rest') \<Rightarrow> map_option (\<lambda>(t, r). (bs @ t, r)) (lex_chars rest'))
             else
               (case simple_escape e of
                  None \<Rightarrow> None
                | Some b \<Rightarrow> map_option (\<lambda>(t, r). (b # t, r)) (lex_chars rest)))
      else if (of_char c :: int) < 0x20 then None
      else map_option (\<lambda>(t, r). (c # t, r)) (lex_chars cs))"
  by pat_completeness auto
termination
  by (relation "measure length") (auto dest: unicode_escape_shorter)

declare lex_chars.simps [simp del]

lemma lex_chars_shorter: "lex_chars s = Some (t, r) \<Longrightarrow> length r < length s"
proof (induction s arbitrary: t r rule: length_induct)
  case (1 s)
  have IH: "length r' < length s'" if "length s' < length s" "lex_chars s' = Some (t', r')"
    for s' t' r' using 1(1) that by blast
  show ?case
  proof (cases s)
    case Nil
    with 1(2) show ?thesis by (simp add: lex_chars.simps)
  next
    case (Cons c cs)
    consider (quote) "r = cs"
      | (uni) e rest bs rest' t' where "cs = e # rest" "unicode_escape rest = Some (bs, rest')"
          "lex_chars rest' = Some (t', r)"
      | (esc) e rest t' where "cs = e # rest" "lex_chars rest = Some (t', r)"
      | (raw) t' where "lex_chars cs = Some (t', r)"
      using 1(2) unfolding Cons lex_chars.simps
      by (auto split: if_splits list.splits option.splits)
    then show ?thesis
    proof cases
      case quote
      with Cons show ?thesis by simp
    next
      case uni
      from uni(2) have "length rest' < length rest" by (rule unicode_escape_shorter)
      moreover from this uni(1) Cons have "length rest' < length s" by simp
      then have "length r < length rest'" using uni(3) by (rule IH)
      ultimately show ?thesis using uni(1) Cons by simp
    next
      case esc
      from esc(1) Cons have "length rest < length s" by simp
      then have "length r < length rest" using esc(2) by (rule IH)
      then show ?thesis using esc(1) Cons by simp
    next
      case raw
      from Cons have "length cs < length s" by simp
      then have "length r < length cs" using raw by (rule IH)
      then show ?thesis using Cons by simp
    qed
  qed
qed

text \<open>
  A number: \<open>-? (0 | [1-9][0-9]*) (. [0-9]+)? ([eE] [+-]? [0-9]+)?\<close>, as mantissa and
  decimal exponent, and what follows it.
\<close>

definition lex_fraction :: "string \<Rightarrow> (string \<times> string) option" where
  "lex_fraction s =
     (if take 1 s = ''.'' then
        (if takeWhile is_digit (drop 1 s) = [] then None
         else Some (takeWhile is_digit (drop 1 s), dropWhile is_digit (drop 1 s)))
      else Some ([], s))"

definition lex_exponent :: "string \<Rightarrow> (int \<times> string) option" where
  "lex_exponent s =
     (if take 1 s = ''e'' \<or> take 1 s = ''E'' then
        (let sg = take 1 (drop 1 s);
             s' = (if sg = ''+'' \<or> sg = ''-'' then drop 2 s else drop 1 s);
             ep = takeWhile is_digit s'
         in if ep = [] then None
            else Some (if sg = ''-'' then - int_of_digits ep else int_of_digits ep,
                       dropWhile is_digit s'))
      else Some (0, s))"

definition lex_number :: "string \<Rightarrow> (int \<times> int \<times> string) option" where
  "lex_number s =
     (let neg = (take 1 s = ''-'');
          s1 = (if neg then drop 1 s else s);
          ip = takeWhile is_digit s1
      in if ip = [] \<or> (1 < length ip \<and> hd ip = CHR ''0'') then None
         else
           (case lex_fraction (dropWhile is_digit s1) of
              None \<Rightarrow> None
            | Some (fp, s3) \<Rightarrow>
                (case lex_exponent s3 of
                   None \<Rightarrow> None
                 | Some (e, s5) \<Rightarrow>
                     Some (int_of_digits (ip @ fp) * (if neg then - 1 else 1),
                           e - int (length fp), s5))))"

lemma lex_fraction_le: "lex_fraction s = Some (fp, r) \<Longrightarrow> length r \<le> length s"
  unfolding lex_fraction_def
  using length_dropWhile_le [of is_digit "drop 1 s"]
  by (auto split: if_splits)

lemma lex_exponent_le: "lex_exponent s = Some (e, r) \<Longrightarrow> length r \<le> length s"
  unfolding lex_exponent_def Let_def
  using length_dropWhile_le [of is_digit "drop 1 s"] length_dropWhile_le [of is_digit "drop 2 s"]
  by (auto split: if_splits)

lemma lex_number_shorter:
  assumes "lex_number s = Some (m, e, r)"
  shows "length r < length s"
proof -
  define s1 where "s1 = (if take 1 s = ''-'' then drop 1 s else s)"
  from assms have ip: "takeWhile is_digit s1 \<noteq> []"
    unfolding lex_number_def Let_def s1_def by (simp split: if_splits)
  from assms ip obtain fp s3 e' where
    fr: "lex_fraction (dropWhile is_digit s1) = Some (fp, s3)" and ex: "lex_exponent s3 = Some (e', r)"
    unfolding lex_number_def Let_def s1_def
    by (simp split: if_splits option.splits prod.splits)
  have "length (takeWhile is_digit s1) + length (dropWhile is_digit s1) = length s1"
    by (metis length_append takeWhile_dropWhile_id)
  with ip have "length (dropWhile is_digit s1) < length s1"
    by (cases "takeWhile is_digit s1") auto
  moreover have "length s1 \<le> length s" by (simp add: s1_def)
  moreover from fr have "length s3 \<le> length (dropWhile is_digit s1)" by (rule lex_fraction_le)
  moreover from ex have "length r \<le> length s3" by (rule lex_exponent_le)
  ultimately show ?thesis by linarith
qed

text \<open>One token at the start of a text that does not start with white space.\<close>

definition punctuation :: "char \<Rightarrow> token option" where
  "punctuation c =
     (if c = CHR ''{'' then Some TLBrace
      else if c = CHR ''}'' then Some TRBrace
      else if c = CHR ''['' then Some TLBracket
      else if c = CHR '']'' then Some TRBracket
      else if c = CHR '':'' then Some TColon
      else if c = CHR '','' then Some TComma
      else None)"

definition keyword :: "string \<Rightarrow> (token \<times> string) option" where
  "keyword s =
     (if take 4 s = ''true'' then Some (TTrue, drop 4 s)
      else if take 5 s = ''false'' then Some (TFalse, drop 5 s)
      else if take 4 s = ''null'' then Some (TNull, drop 4 s)
      else None)"

definition scan :: "string \<Rightarrow> (token \<times> string) option" where
  "scan s =
     (case s of
        [] \<Rightarrow> None
      | c # cs \<Rightarrow>
          (case punctuation c of
             Some t \<Rightarrow> Some (t, cs)
           | None \<Rightarrow>
               if c = CHR 0x22 then
                 (case lex_chars cs of None \<Rightarrow> None | Some (t, r) \<Rightarrow> Some (TString t, r))
               else if c = CHR ''-'' \<or> is_digit c then
                 (case lex_number s of None \<Rightarrow> None | Some (m, e, r) \<Rightarrow> Some (TNumber m e, r))
               else keyword s))"

lemma keyword_shorter:
  assumes "keyword s = Some (t, r)"
  shows "length r < length s"
proof -
  from assms consider "take 4 s = ''true''" "r = drop 4 s" | "take 5 s = ''false''" "r = drop 5 s"
    | "take 4 s = ''null''" "r = drop 4 s"
    unfolding keyword_def by (simp split: if_splits)
  then show ?thesis
  proof cases
    case 1
    from 1(1) have "length (take 4 s) = 4" by simp
    then have "4 \<le> length s" by simp
    with 1(2) show ?thesis by simp
  next
    case 2
    from 2(1) have "length (take 5 s) = 5" by simp
    then have "5 \<le> length s" by simp
    with 2(2) show ?thesis by simp
  next
    case 3
    from 3(1) have "length (take 4 s) = 4" by simp
    then have "4 \<le> length s" by simp
    with 3(2) show ?thesis by simp
  qed
qed

lemma scan_shorter:
  assumes "scan s = Some (t, r)"
  shows "length r < length s"
proof (cases s)
  case Nil
  with assms show ?thesis by (simp add: scan_def)
next
  case (Cons c cs)
  from assms consider "r = cs" | t' where "lex_chars cs = Some (t', r)"
    | m e where "lex_number s = Some (m, e, r)" | "keyword s = Some (t, r)"
    unfolding scan_def Cons
    by (auto split: option.splits if_splits prod.splits)
  then show ?thesis
  proof cases
    case 1
    with Cons show ?thesis by simp
  next
    case 2
    then have "length r < length cs" by (rule lex_chars_shorter)
    with Cons show ?thesis by simp
  next
    case 3
    then show ?thesis by (rule lex_number_shorter)
  next
    case 4
    then show ?thesis by (rule keyword_shorter)
  qed
qed

text \<open>JSON white space is TAB, LF, CR and SP only.\<close>

definition json_ws :: "char \<Rightarrow> bool" where
  "json_ws c = (c = CHR 0x09 \<or> c = CHR 0x0A \<or> c = CHR 0x0D \<or> c = CHR 0x20)"

function lexer :: "string \<Rightarrow> token list option" where
  "lexer s =
     (case dropWhile json_ws s of
        [] \<Rightarrow> Some []
      | c # cs \<Rightarrow>
          (case scan (c # cs) of
             None \<Rightarrow> None
           | Some (t, r) \<Rightarrow> map_option (Cons t) (lexer r)))"
  by pat_completeness auto
termination
proof (relation "measure length")
  show "wf (measure length)" by simp
next
  fix s :: string and c cs x t r
  assume "dropWhile json_ws s = c # cs" and "scan (c # cs) = Some x" and "(t, r) = x"
  then have "length r < length (dropWhile json_ws s)"
    using scan_shorter [of "c # cs" t r] by simp
  also have "\<dots> \<le> length s" by (rule length_dropWhile_le)
  finally show "(r, s) \<in> measure length" by simp
qed

declare lexer.simps [simp del]

text \<open>
  The grammar of values over the tokens, as a pushdown automaton: the stack holds the arrays
  and objects that are open, an object together with the key whose value is being read.
\<close>

datatype frame = FArray "json list" | FObject "(string \<times> json) list" "string option"

datatype pstate =
    PValue "frame list"
  | PFirst "frame list"
  | PKey bool "frame list"
  | PColon "frame list"
  | PAfter "frame list"
  | PDone json
  | PFail

definition is_array_index :: "string \<Rightarrow> bool" where
  "is_array_index k =
     (k \<noteq> [] \<and> list_all is_digit k \<and> (k = ''0'' \<or> hd k \<noteq> CHR ''0'')
      \<and> int_of_digits k < 2 ^ 32 - 1)"

text \<open>
  \<open>CreateDataProperty\<close> on the object under construction: an existing key keeps its place
  and takes the new value; a new array index goes into the ascending run of indices at
  the front; any other new key goes to the end.
\<close>

fun obj_put :: "(string \<times> json) list \<Rightarrow> string \<Rightarrow> json \<Rightarrow> (string \<times> json) list" where
  "obj_put [] k v = [(k, v)]"
| "obj_put ((k', v') # ms) k v =
     (if k' = k then (k, v) # ms
      else if is_array_index k
              \<and> (\<not> is_array_index k' \<or> int_of_digits k < int_of_digits k')
           then (k, v) # (k', v') # ms
      else (k', v') # obj_put ms k v)"

fun put_value :: "frame list \<Rightarrow> json \<Rightarrow> pstate" where
  "put_value [] v = PDone v"
| "put_value (FArray xs # stk) v = PAfter (FArray (xs @ [v]) # stk)"
| "put_value (FObject ms (Some k) # stk) v = PAfter (FObject (obj_put ms k v) None # stk)"
| "put_value (FObject ms None # stk) v = PFail"

fun start_value :: "frame list \<Rightarrow> token \<Rightarrow> pstate" where
  "start_value stk TLBrace = PKey True (FObject [] None # stk)"
| "start_value stk TLBracket = PFirst (FArray [] # stk)"
| "start_value stk (TString t) = put_value stk (JString t)"
| "start_value stk (TNumber m e) = put_value stk (JNumber m e)"
| "start_value stk TTrue = put_value stk (JBool True)"
| "start_value stk TFalse = put_value stk (JBool False)"
| "start_value stk TNull = put_value stk JNull"
| "start_value stk _ = PFail"

fun pstep :: "pstate \<Rightarrow> token \<Rightarrow> pstate" where
  "pstep (PValue stk) t = start_value stk t"
| "pstep (PFirst (FArray xs # stk)) TRBracket = put_value stk (JArray xs)"
| "pstep (PFirst stk) t = start_value stk t"
| "pstep (PKey first (FObject ms None # stk)) (TString k) = PColon (FObject ms (Some k) # stk)"
| "pstep (PKey True (FObject ms None # stk)) TRBrace = put_value stk (JObject ms)"
| "pstep (PColon stk) TColon = PValue stk"
| "pstep (PAfter (FArray xs # stk)) TComma = PValue (FArray xs # stk)"
| "pstep (PAfter (FArray xs # stk)) TRBracket = put_value stk (JArray xs)"
| "pstep (PAfter (FObject ms None # stk)) TComma = PKey False (FObject ms None # stk)"
| "pstep (PAfter (FObject ms None # stk)) TRBrace = put_value stk (JObject ms)"
| "pstep _ _ = PFail"

definition parse_tokens :: "token list \<Rightarrow> json option" where
  "parse_tokens ts = (case foldl pstep (PValue []) ts of PDone v \<Rightarrow> Some v | _ \<Rightarrow> None)"

text \<open>\<open>JSON.parse(text)\<close>, without reviver: the value, or the SyntaxError it throws.\<close>

definition JSON_parse :: "string \<Rightarrow> error + json" where
  "JSON_parse s =
     (case lexer s of
        None \<Rightarrow> Inl SyntaxError
      | Some ts \<Rightarrow> (case parse_tokens ts of None \<Rightarrow> Inl SyntaxError | Some v \<Rightarrow> Inr v))"

subsection \<open>Numbers and strings as text\<close>

text \<open>
  What the script reads from its environment: the clock (\<open>new Date()\<close>, \<open>Date.now()\<close>),
  \<open>Math.random\<close>, and the text that the engine prints for a number that is neither a decimal of
  at most 15 significant digits nor a safe integer (the engine rounds it to binary64 first,
  which is outside this development). The \<open>n\<close>-th reading of the clock is \<open>clock rt n\<close>, the
  base-36 text of the \<open>n\<close>-th random number is \<open>random_text rt n\<close>; the page counts its
  readings.
\<close>

record jsdate =
  getDate :: int
  getMonth :: int
  getFullYear :: int
  getHours :: int
  getMinutes :: int
  getSeconds :: int
  getTime :: int

record runtime =
  clock :: "nat \<Rightarrow> jsdate"
  random_text :: "nat \<Rightarrow> string"
  binary64_text :: "int \<Rightarrow> int \<Rightarrow> string"

function strip_zeros :: "int \<Rightarrow> int \<Rightarrow> int \<times> int" where
  "strip_zeros s e =
     (if 0 < s \<and> s mod 10 = 0 then strip_zeros (s div 10) (e + 1) else (s, e))"
  by pat_completeness auto
termination
  by (relation "measure (\<lambda>(s, e). nat s)") auto

declare strip_zeros.simps [simp del]

text \<open>
  \<open>Number::toString\<close> for the value \<open>s \<times> 10\<^sup>n\<^sup>-\<^sup>k\<close>, where \<open>ds\<close> are the \<open>k\<close> digits of \<open>s\<close>.
\<close>

definition decimal_text :: "string \<Rightarrow> int \<Rightarrow> string" where
  "decimal_text ds n =
     (let k = int (length ds)
      in if k \<le> n \<and> n \<le> 21 then ds @ replicate (nat (n - k)) (CHR ''0'')
         else if 0 < n \<and> n \<le> 21 then take (nat n) ds @ ''.'' @ drop (nat n) ds
         else if - 6 < n \<and> n \<le> 0 then ''0.'' @ replicate (nat (- n)) (CHR ''0'') @ ds
         else
           (let ex = (if n - 1 < 0 then ''-'' else ''+'') @ digits \<bar>n - 1\<bar>
            in if k = 1 then ds @ ''e'' @ ex
               else take 1 ds @ ''.'' @ drop 1 ds @ ''e'' @ ex))"

definition number_text :: "runtime \<Rightarrow> int \<Rightarrow> int \<Rightarrow> string" where
  "number_text rt m e =
     (if m = 0 then ''0''
      else
        (let (s, e') = strip_zeros \<bar>m\<bar> e;
             ds = digits s;
             n = int (length ds) + e'
         in if (length ds \<le> 15 \<and> - 300 \<le> n \<and> n \<le> 300)
               \<or> (0 \<le> e' \<and> n \<le> 16 \<and> s * 10 ^ nat e' \<le> 2 ^ 53)
            then (if m < 0 then ''-'' else []) @ decimal_text ds n
            else binary64_text rt m e))"

definition hex_digit :: "int \<Rightarrow> char" where
  "hex_digit n = (if n < 10 then char_of (48 + n) else char_of (87 + n))"

text \<open>
  \<open>QuoteJSONString\<close>, without the enclosing quotes: the quote, the backslash and the control
  characters are escaped, a lone surrogate (three bytes, \<open>ED\<close> and then \<open>A0\<close> or more) is
  written as \<open>\udxxx\<close>, everything else is kept.
\<close>

definition lone_surrogate :: "string \<Rightarrow> bool" where
  "lone_surrogate s =
     (case s of c # a # b # rest \<Rightarrow> c = CHR 0xED \<and> 0xA0 \<le> (of_char a :: int) | _ \<Rightarrow> False)"

text \<open>The escape of the character, or of the lone surrogate, that a text starts with.\<close>

definition escape_head :: "string \<Rightarrow> string" where
  "escape_head s =
     (case s of
        [] \<Rightarrow> []
      | c # cs \<Rightarrow>
          if c = CHR 0x22 then [CHR 0x5C, CHR 0x22]
          else if c = CHR 0x5C then [CHR 0x5C, CHR 0x5C]
          else if c = CHR 0x08 then [CHR 0x5C, CHR ''b'']
          else if c = CHR 0x0C then [CHR 0x5C, CHR ''f'']
          else if c = CHR 0x0A then [CHR 0x5C, CHR ''n'']
          else if c = CHR 0x0D then [CHR 0x5C, CHR ''r'']
          else if c = CHR 0x09 then [CHR 0x5C, CHR ''t'']
          else if (of_char c :: int) < 0x20 then
            [CHR 0x5C, CHR ''u'', CHR ''0'', CHR ''0'', hex_digit (of_char c div 16),
             hex_digit (of_char c mod 16)]
          else if lone_surrogate s then
            [CHR 0x5C, CHR ''u'', CHR ''d'', hex_digit (of_char (hd cs) div 4 mod 16),
             hex_digit (of_char (hd cs) mod 4 * 4 + of_char (hd (tl cs)) div 16 mod 4),
             hex_digit (of_char (hd (tl cs)) mod 16)]
          else [c])"

function quote_chars :: "string \<Rightarrow> string" where
  "quote_chars [] = []"
| "quote_chars (c # cs) =
     escape_head (c # cs) @ quote_chars (if lone_surrogate (c # cs) then drop 2 cs else cs)"
  by pat_completeness auto
termination
  by (relation "measure length") auto

definition quote :: "string \<Rightarrow> string" where
  "quote s = [CHR 0x22] @ quote_chars s @ [CHR 0x22]"

text \<open>
  \<open>JSON.stringify(value)\<close> on a parsed value, without replacer or indentation. No
  member of such a value is a function, so \<open>toJSON\<close> is never called and nothing is left out.
\<close>

fun JSON_stringify :: "runtime \<Rightarrow> json \<Rightarrow> string"
  and stringify_elements :: "runtime \<Rightarrow> json list \<Rightarrow> string list"
  and stringify_members :: "runtime \<Rightarrow> (string \<times> json) list \<Rightarrow> string list" where
  "JSON_stringify rt JNull = ''null''"
| "JSON_stringify rt (JBool b) = (if b then ''true'' else ''false'')"
| "JSON_stringify rt (JNumber m e) = number_text rt m e"
| "JSON_stringify rt (JString t) = quote t"
| "JSON_stringify rt (JArray xs) = ''['' @ join '','' (stringify_elements rt xs) @ '']''"
| "JSON_stringify rt (JObject ms) = ''{'' @ join '','' (stringify_members rt ms) @ ''}''"
| "stringify_elements rt [] = []"
| "stringify_elements rt (x # xs) = JSON_stringify rt x # stringify_elements rt xs"
| "stringify_members rt [] = []"
| "stringify_members rt ((k, v) # ms) =
     (quote k @ '':'' @ JSON_stringify rt v) # stringify_members rt ms"

subsection \<open>Property access and conversion to text\<close>

text \<open>
  \<open>value.name\<close> for the names that the scripts read (\<open>status\<close>, \<open>action\<close>, \<open>parameters\<close>,
  \<open>message\<close>, \<open>originalCommand\<close>, \<open>aiResponse\<close>, \<open>myText\<close>, \<open>myExpression\<close>, \<open>myValue\<close>; no
  prototype has them): reading \<open>null\<close> throws, an object gives its member or \<open>undefined\<close>
  (\<open>None\<close>), anything else \<open>undefined\<close>.
\<close>

fun get_property :: "json \<Rightarrow> string \<Rightarrow> error + json option" where
  "get_property JNull name = Inl TypeError"
| "get_property (JObject ms) name = Inr (map_of ms name)"
| "get_property _ name = Inr None"

text \<open>
  \<open>ToString\<close> of a parsed value, as a template literal applies it. An array is joined with
  commas, \<open>null\<close> elements giving the empty text. An object is \<open>[object Object]\<close>, unless it has
  a member \<open>toString\<close> of its own: that member is not callable, \<open>valueOf\<close> gives no
  primitive, and the conversion throws.
\<close>

fun to_text :: "runtime \<Rightarrow> json \<Rightarrow> error + string"
  and element_texts :: "runtime \<Rightarrow> json list \<Rightarrow> error + string list" where
  "to_text rt JNull = Inr ''null''"
| "to_text rt (JBool b) = Inr (if b then ''true'' else ''false'')"
| "to_text rt (JNumber m e) = Inr (number_text rt m e)"
| "to_text rt (JString t) = Inr t"
| "to_text rt (JArray xs) =
     (case element_texts rt xs of Inl err \<Rightarrow> Inl err | Inr ts \<Rightarrow> Inr (join '','' ts))"
| "to_text rt (JObject ms) =
     (if ''toString'' \<in> set (map fst ms) then Inl TypeError else Inr ''[object Object]'')"
| "element_texts rt [] = Inr []"
| "element_texts rt (x # xs) =
     (case (if x = JNull then Inr [] else to_text rt x) of
        Inl err \<Rightarrow> Inl err
      | Inr t \<Rightarrow> (case element_texts rt xs of Inl err \<Rightarrow> Inl err | Inr ts \<Rightarrow> Inr (t # ts)))"

text \<open>\<open>${value}\<close> where the value may be \<open>undefined\<close>.\<close>

definition template :: "runtime \<Rightarrow> json option \<Rightarrow> error + string" where
  "template rt v = (case v of None \<Rightarrow> Inr ''undefined'' | Some x \<Rightarrow> to_text rt x)"

section \<open>The page and its environment\<close>

text \<open>
  The children of \<open>#messagesContainer\<close>: chat bubbles (\<open>div.message.<type>\<close> with its
  avatar and its content) and status banners (\<open>div.status-message.<type>#currentStatus\<close>).
  A banner carries the identity of its DOM node, since a timer holds on to the node it
  found; \<open>dots\<close> says that the loading animation was added, \<open>faded\<close> that its opacity
  was set to 0.
\<close>

datatype element =
    Message (mtype: string) (avatar: string) (content: string)
  | Status (ident: nat) (stype: string) (caption: string) (dots: bool) (faded: bool)

record history_entry =
  h_content :: string
  h_type :: string
  h_timestamp :: jsdate

text \<open>
  Timers set by \<open>setTimeout\<close>: the banner's auto-removal (3 s) and the removal of the node
  it faded (300 ms later).
\<close>

datatype timer = AutoRemove | RemoveNode nat

text \<open>
  What both scripts of the repository keep about their environment: the number of clock
  readings and of random numbers drawn so far, the calls made to \<open>adsk.fusionSendData\<close>
  (channel and payload), and the number of \<open>aiCommand\<close> calls that the host has not settled
  yet.
\<close>

record environment =
  ticks :: nat
  draws :: nat
  sent :: "(string \<times> string) list"
  pending :: nat

text \<open>
  The state of the chat page: the value of \<open>#chatInput\<close>, the \<open>disabled\<close> flag of \<open>#sendBtn\<close>,
  the children of \<open>#messagesContainer\<close>, the global \<open>messageHistory\<close>, the pending timers
  and the number of banner nodes created. The three elements exist in the page (index.html),
  so \<open>getElementById\<close> finds them; scrolling and the console are not part of the state.
\<close>

record state = environment +
  chatInput_value :: string
  sendBtn_disabled :: bool
  messagesContainer :: "element list"
  messageHistory :: "history_entry list"
  timers :: "timer list"
  created :: nat

text \<open>
  The page as index.html loads it: one welcome bubble (its text here without the line breaks
  and the indentation that surround it in the markup), no banner, nothing in the history.
\<close>

definition welcome_text :: string where
  "welcome_text = ''Welcome to CadxStudio AI Copilot! I can help you create 3D models using natural language. Try asking me to create gears, holes, basic shapes, or use the quick actions above.''"

definition initial :: state where
  "initial =
     \<lparr>ticks = 0, draws = 0, sent = [], pending = 0,
      chatInput_value = [], sendBtn_disabled = False,
      messagesContainer = [Message ''assistant'' ''AI'' welcome_text],
      messageHistory = [], timers = [], created = 0\<rparr>"

subsection \<open>getDateString, generateSessionId\<close>

definition getDateString ::
  "runtime \<Rightarrow> 'a environment_scheme \<Rightarrow> string \<times> 'a environment_scheme" where
  "getDateString rt st =
     (let today = clock rt (ticks st);
          date = show_int (getDate today) @ ''/'' @ show_int (getMonth today + 1) @ ''/''
                 @ show_int (getFullYear today);
          time = show_int (getHours today) @ '':'' @ show_int (getMinutes today) @ '':''
                 @ show_int (getSeconds today)
      in (''Date: '' @ date @ '', Time: '' @ time, st\<lparr>ticks := Suc (ticks st)\<rparr>))"

text \<open>\<open>'session_' + Math.random().toString(36).substr(2, 9) + '_' + Date.now()\<close>\<close>

definition generateSessionId ::
  "runtime \<Rightarrow> 'a environment_scheme \<Rightarrow> string \<times> 'a environment_scheme" where
  "generateSessionId rt st =
     (''session_'' @ take 9 (drop 2 (random_text rt (draws st))) @ ''_''
        @ show_int (getTime (clock rt (ticks st))),
      st\<lparr>draws := Suc (draws st), ticks := Suc (ticks st)\<rparr>)"

subsection \<open>addMessage, addStatusMessage, removeStatusMessage\<close>

definition addMessage :: "runtime \<Rightarrow> string \<Rightarrow> string \<Rightarrow> state \<Rightarrow> state" where
  "addMessage rt content' type st =
     st\<lparr>messagesContainer :=
          messagesContainer st @ [Message type (if type = ''user'' then ''U'' else ''AI'') content'],
        messageHistory :=
          messageHistory st @ [\<lparr>h_content = content', h_type = type, h_timestamp = clock rt (ticks st)\<rparr>],
        ticks := Suc (ticks st)\<rparr>"

text \<open>
  \<open>document.getElementById('currentStatus')\<close> is the first element of the document with
  that id; only banners have it. \<open>remove()\<close> takes that one node out.
\<close>

fun is_Status :: "element \<Rightarrow> bool" where
  "is_Status (Status i t m d f) = True"
| "is_Status (Message t a c) = False"

fun remove_currentStatus :: "element list \<Rightarrow> element list" where
  "remove_currentStatus [] = []"
| "remove_currentStatus (x # xs) = (if is_Status x then xs else x # remove_currentStatus xs)"

text \<open>
  The new banner is built before the existing one is looked up, but it is not in the document
  yet, so the lookup cannot find it. For type \<open>loading\<close> the message becomes \<open>innerHTML\<close>
  followed by the dots; the script passes constant texts without markup. The node that
  the source returns is not used by any caller.
\<close>

definition addStatusMessage :: "string \<Rightarrow> string \<Rightarrow> state \<Rightarrow> state" where
  "addStatusMessage message type st =
     (let statusDiv = Status (created st) type message (type = ''loading'') False
      in st\<lparr>messagesContainer := remove_currentStatus (messagesContainer st) @ [statusDiv],
            created := Suc (created st)\<rparr>)"

definition removeStatusMessage :: "state \<Rightarrow> state" where
  "removeStatusMessage st =
     st\<lparr>messagesContainer := remove_currentStatus (messagesContainer st)\<rparr>"

subsection \<open>handleAIResponse\<close>

definition success_banner :: string where
  "success_banner = [CHR 0xE2, CHR 0x9C, CHR 0x85] @ '' Command executed successfully!''"

definition error_banner :: string where
  "error_banner = [CHR 0xE2, CHR 0x9D, CHR 0x8C] @ '' Command failed to execute''"

definition processing_banner :: string where
  "processing_banner = [CHR 0xF0, CHR 0x9F, CHR 0x94, CHR 0x84] @ '' AI is processing your command...''"

text \<open>\<open>parsedResponse.action.replace('_', ' ')\<close>: only a string has a method \<open>replace\<close>.\<close>

definition action_replace :: "json option \<Rightarrow> error + string" where
  "action_replace action =
     (case action of Some (JString t) \<Rightarrow> Inr (replace_first ''_'' '' '' t) | _ \<Rightarrow> Inl TypeError)"

text \<open>
  The template literal of the success branch, evaluated from left to right.
  \<open>JSON.stringify(undefined)\<close> is \<open>undefined\<close>.
\<close>

definition created_summary :: "runtime \<Rightarrow> json \<Rightarrow> error + string" where
  "created_summary rt parsedResponse =
     (case get_property parsedResponse ''action'' of
        Inl err \<Rightarrow> Inl err
      | Inr action \<Rightarrow>
          (case action_replace action of
             Inl err \<Rightarrow> Inl err
           | Inr replaced \<Rightarrow>
               (case get_property parsedResponse ''parameters'' of
                  Inl err \<Rightarrow> Inl err
                | Inr parameters \<Rightarrow>
                    Inr (''Created: '' @ replaced @ '' with parameters: ''
                         @ (case parameters of
                              None \<Rightarrow> ''undefined''
                            | Some p \<Rightarrow> JSON_stringify rt p)))))"

text \<open>\<open>${value.name}\<close>\<close>

definition field_text :: "runtime \<Rightarrow> json \<Rightarrow> string \<Rightarrow> error + string" where
  "field_text rt v name =
     (case get_property v name of Inl err \<Rightarrow> Inl err | Inr x \<Rightarrow> template rt x)"

text \<open>
  The \<open>try\<close> block of handleAIResponse: the exception it ends with, if any, and the page
  as it is then. What was done before the throw stays done.
\<close>

definition handleAIResponse_try :: "runtime \<Rightarrow> string \<Rightarrow> state \<Rightarrow> error option \<times> state" where
  "handleAIResponse_try rt response st =
     (case JSON_parse response of
        Inl err \<Rightarrow> (Some err, st)
      | Inr parsedResponse \<Rightarrow>
          (case get_property parsedResponse ''status'' of
             Inl err \<Rightarrow> (Some err, st)
           | Inr status \<Rightarrow>
               if status = Some (JString ''success'') then
                 (let st1 = addStatusMessage success_banner ''success'' st
                  in case created_summary rt parsedResponse of
                       Inl err \<Rightarrow> (Some err, st1)
                     | Inr message \<Rightarrow> (None, addMessage rt message ''assistant'' st1))
               else if status = Some (JString ''error'') then
                 (let st1 = addStatusMessage error_banner ''error'' st
                  in case field_text rt parsedResponse ''message'' of
                       Inl err \<Rightarrow> (Some err, st1)
                     | Inr message \<Rightarrow> (None, addMessage rt (''Error: '' @ message) ''assistant'' st1))
               else if status = Some (JString ''processing'') then
                 (None, addStatusMessage processing_banner ''loading'' st)
               else (None, st)))"

definition handleAIResponse :: "runtime \<Rightarrow> string \<Rightarrow> state \<Rightarrow> state" where
  "handleAIResponse rt response st =
     (let st1 = removeStatusMessage st;
          st2 = (case handleAIResponse_try rt response st1 of
                   (None, s) \<Rightarrow> s
                 | (Some e, s) \<Rightarrow> addMessage rt response ''assistant'' s)
      in st2\<lparr>timers := timers st2 @ [AutoRemove]\<rparr>)"

subsection \<open>The timers of handleAIResponse\<close>

text \<open>
  After 3 s: \<open>document.querySelector('.status-message')\<close> is the first banner of the page; it is
  faded, and its removal is scheduled. After 300 ms more: that node is removed, if it is still
  in the page.
\<close>

fun first_status :: "element list \<Rightarrow> nat option" where
  "first_status [] = None"
| "first_status (Status i t m d f # xs) = Some i"
| "first_status (Message t a c # xs) = first_status xs"

fun fade_first :: "element list \<Rightarrow> element list" where
  "fade_first [] = []"
| "fade_first (Status i t m d f # xs) = Status i t m d True # xs"
| "fade_first (Message t a c # xs) = Message t a c # fade_first xs"

fun is_node :: "nat \<Rightarrow> element \<Rightarrow> bool" where
  "is_node n (Status i t m d f) = (i = n)"
| "is_node n (Message t a c) = False"

fun remove_node :: "nat \<Rightarrow> element list \<Rightarrow> element list" where
  "remove_node n [] = []"
| "remove_node n (x # xs) = (if is_node n x then xs else x # remove_node n xs)"

fun fire :: "timer \<Rightarrow> state \<Rightarrow> state" where
  "fire AutoRemove st =
     (case first_status (messagesContainer st) of
        None \<Rightarrow> st
      | Some i \<Rightarrow>
          st\<lparr>messagesContainer := fade_first (messagesContainer st),
             timers := timers st @ [RemoveNode i]\<rparr>)"
| "fire (RemoveNode i) st = st\<lparr>messagesContainer := remove_node i (messagesContainer st)\<rparr>"

subsection \<open>sendChatMessage and the promise it leaves behind\<close>

definition analyzing_banner :: string where
  "analyzing_banner = ''CadxStudio AI is analyzing your command...''"

definition commandData :: "string \<Rightarrow> string \<Rightarrow> string \<Rightarrow> json" where
  "commandData userCommand timestamp sessionId =
     JObject [(''command'', JString userCommand), (''timestamp'', JString timestamp),
              (''sessionId'', JString sessionId)]"

text \<open>
  The synchronous part: up to the call of \<open>adsk.fusionSendData\<close>, which is recorded in
  \<open>sent\<close> and leaves one more promise pending.
\<close>

definition sendChatMessage :: "runtime \<Rightarrow> state \<Rightarrow> state" where
  "sendChatMessage rt st =
     (let userCommand = trim (chatInput_value st)
      in if userCommand = [] then st
         else
           (let st1 = addMessage rt userCommand ''user'' st;
                st2 = st1\<lparr>chatInput_value := [], sendBtn_disabled := True\<rparr>;
                st3 = addStatusMessage analyzing_banner ''loading'' st2;
                (timestamp, st4) = getDateString rt st3;
                (sessionId, st5) = generateSessionId rt st4
            in st5\<lparr>sent := sent st5
                        @ [(''aiCommand'', JSON_stringify rt (commandData userCommand timestamp sessionId))],
                    pending := Suc (pending st5)\<rparr>))"

text \<open>
  How the host settles the call, and \<open>promise.then(f).catch(g).finally(h)\<close>: \<open>f\<close> runs on
  the result of a resolved call; \<open>g\<close> runs when the call was rejected or \<open>f\<close> threw; \<open>h\<close> runs
  in every case. A handler gives the exception it threw, if any, and the page it left. The
  three handlers run one after the other, with no other event in between.
\<close>

datatype outcome = Resolved string | Rejected

definition promise_chain ::
  "(string \<Rightarrow> 's \<Rightarrow> error option \<times> 's) \<Rightarrow> (error \<Rightarrow> 's \<Rightarrow> error option \<times> 's)
   \<Rightarrow> ('s \<Rightarrow> error option \<times> 's) \<Rightarrow> outcome \<Rightarrow> 's \<Rightarrow> error option \<times> 's" where
  "promise_chain f g h out st =
     (let (e1, st1) = (case out of Resolved result \<Rightarrow> f result st | Rejected \<Rightarrow> (Some BridgeFailure, st));
          (e2, st2) = (case e1 of None \<Rightarrow> (None, st1) | Some err \<Rightarrow> g err st1);
          (e3, st3) = h st2
      in (case e3 of None \<Rightarrow> e2 | Some err \<Rightarrow> Some err, st3))"

definition on_result :: "runtime \<Rightarrow> string \<Rightarrow> state \<Rightarrow> error option \<times> state" where
  "on_result rt result st = (None, handleAIResponse rt result st)"

definition on_error :: "runtime \<Rightarrow> error \<Rightarrow> state \<Rightarrow> error option \<times> state" where
  "on_error rt err st =
     (None, addMessage rt ''Error communicating with Fusion 360. Please try again.'' ''assistant''
              (removeStatusMessage st))"

definition on_finally :: "state \<Rightarrow> error option \<times> state" where
  "on_finally st = (None, st\<lparr>sendBtn_disabled := False\<rparr>)"

definition settle :: "runtime \<Rightarrow> outcome \<Rightarrow> state \<Rightarrow> state" where
  "settle rt out st =
     (let st' = snd (promise_chain (on_result rt) (on_error rt) on_finally out st)
      in st'\<lparr>pending := pending st' - 1\<rparr>)"

subsection \<open>The inbound handler\<close>

definition updateMessage :: "runtime \<Rightarrow> string \<Rightarrow> state \<Rightarrow> error option \<times> state" where
  "updateMessage rt messageString st =
     (case JSON_parse messageString of
        Inl err \<Rightarrow> (Some err, st)
      | Inr messageData \<Rightarrow>
          (case field_text rt messageData ''myText'' of
             Inl err \<Rightarrow> (Some err, st)
           | Inr myText \<Rightarrow>
               (case field_text rt messageData ''myExpression'' of
                  Inl err \<Rightarrow> (Some err, st)
                | Inr myExpression \<Rightarrow>
                    (case field_text rt messageData ''myValue'' of
                       Inl err \<Rightarrow> (Some err, st)
                     | Inr myValue \<Rightarrow>
                         (None,
                          addMessage rt
                            (''Text: '' @ myText @ '', Expression: '' @ myExpression
                             @ '', Value: '' @ myValue)
                            ''assistant'' st)))))"

text \<open>
  handleAIResponse throws nothing, so the \<open>catch\<close> of handleAIUpdate is reached from
  \<open>JSON.parse\<close> only.
\<close>

definition handleAIUpdate :: "runtime \<Rightarrow> string \<Rightarrow> state \<Rightarrow> state" where
  "handleAIUpdate rt messageString st =
     (case JSON_parse messageString of
        Inr data \<Rightarrow> handleAIResponse rt (JSON_stringify rt data) st
      | Inl err \<Rightarrow> handleAIResponse rt messageString st)"

text \<open>
  \<open>window.fusionJavaScriptHandler.handle\<close>: what it returns to the host, and the page. The
  \<open>catch\<close> logs and falls through to \<open>return "OK"\<close>; the \<open>debugger\<close> statement changes nothing.
\<close>

definition handle :: "runtime \<Rightarrow> string \<Rightarrow> string \<Rightarrow> state \<Rightarrow> string \<times> state" where
  "handle rt action data st =
     (if action = ''updateMessage'' then
        (case updateMessage rt data st of
           (None, st') \<Rightarrow> (''OK'', st')
         | (Some err, st') \<Rightarrow> (''OK'', st'))
      else if action = ''aiResponse'' then (''OK'', handleAIUpdate rt data st)
      else if action = ''debugger'' then (''OK'', st)
      else (''Unexpected command type: '' @ action, st))"

subsection \<open>The page over time\<close>

text \<open>
  What can happen to the page: the user edits the input (or a quick action fills it in), a
  command is sent, the host settles a pending call, the host pushes an action, a timer fires.
  Enter in the input sends even while the button is disabled.
\<close>

datatype event =
    Input string
  | Send
  | Settle outcome
  | Host string string
  | Fire timer

fun step :: "runtime \<Rightarrow> event \<Rightarrow> state \<Rightarrow> state option" where
  "step rt (Input v) st = Some (st\<lparr>chatInput_value := v\<rparr>)"
| "step rt Send st = Some (sendChatMessage rt st)"
| "step rt (Settle out) st = (if pending st = 0 then None else Some (settle rt out st))"
| "step rt (Host action data) st = Some (snd (handle rt action data st))"
| "step rt (Fire t) st =
     (if t \<in> set (timers st) then Some (fire t (st\<lparr>timers := remove1 t (timers st)\<rparr>)) else None)"

inductive reachable :: "runtime \<Rightarrow> state \<Rightarrow> bool" for rt :: runtime where
  at_load: "reachable rt initial"
| after: "reachable rt st \<Longrightarrow> step rt ev st = Some st' \<Longrightarrow> reachable rt st'"

definition banners :: "state \<Rightarrow> nat" where
  "banners st = length (filter is_Status (messagesContainer st))"

definition single_banner :: "state \<Rightarrow> bool" where
  "single_banner st = (banners st \<le> 1)"

section \<open>The earlier palette script\<close>

text \<open>
  static/palette.js drives a form instead of a chat: an input \<open>#aiCommandInput\<close>, a button
  \<open>#aiSubmitBtn\<close>, an output \<open>#aiResponse\<close>, a paragraph \<open>#fusionMessage\<close> and a status line
  \<open>#statusMessage\<close> that showStatus creates before the output when it is missing. The page of
  this script is not in the repository; the four elements it looks up are taken to exist. Of
  the status line the state holds the identity of its node, its class and its text; of an
  \<open>innerHTML\<close> the markup that was assigned. A timer of showStatus holds the node it was set
  for. getDateString, generateSessionId and the inbound handler are the same text in both
  scripts.
\<close>

record palette = environment +
  aiCommandInput_value :: string
  aiSubmitBtn_disabled :: bool
  aiSubmitBtn_textContent :: string
  aiResponse_innerHTML :: string
  fusionMessage_innerHTML :: string
  statusMessage :: "(nat \<times> string \<times> string) option"
  hide_timers :: "nat list"
  nodes :: nat

definition showStatus :: "string \<Rightarrow> string \<Rightarrow> palette \<Rightarrow> palette" where
  "showStatus message type p =
     (let n = (case statusMessage p of None \<Rightarrow> nodes p | Some (i, c, t) \<Rightarrow> i);
          p1 = p\<lparr>statusMessage := Some (n, ''status '' @ type, message),
                 nodes := (case statusMessage p of None \<Rightarrow> Suc (nodes p) | Some x \<Rightarrow> nodes p)\<rparr>
      in if type \<noteq> ''loading'' then p1\<lparr>hide_timers := hide_timers p1 @ [n]\<rparr> else p1)"

text \<open>After 5 s: the node is removed if it still has a parent.\<close>

definition hide :: "nat \<Rightarrow> palette \<Rightarrow> palette" where
  "hide n p =
     (case statusMessage p of
        None \<Rightarrow> p
      | Some (i, c, t) \<Rightarrow> if i = n then p\<lparr>statusMessage := None\<rparr> else p)"

text \<open>
  \<open>JSON.stringify(value, null, 2)\<close> on a parsed value: members and elements on lines of
  their own, indented by two more spaces than the enclosing value (\<open>ind\<close>), a space after
  the colon, empty arrays and objects as \<open>[]\<close> and \<open>{}\<close>.
\<close>

fun stringify_indented :: "runtime \<Rightarrow> string \<Rightarrow> json \<Rightarrow> string"
  and indented_elements :: "runtime \<Rightarrow> string \<Rightarrow> json list \<Rightarrow> string list"
  and indented_members :: "runtime \<Rightarrow> string \<Rightarrow> (string \<times> json) list \<Rightarrow> string list" where
  "stringify_indented rt ind JNull = ''null''"
| "stringify_indented rt ind (JBool b) = (if b then ''true'' else ''false'')"
| "stringify_indented rt ind (JNumber m e) = number_text rt m e"
| "stringify_indented rt ind (JString t) = quote t"
| "stringify_indented rt ind (JArray xs) =
     (if xs = [] then ''[]''
      else ''['' @ [CHR 0x0A] @ ind @ ''  ''
           @ join ('','' @ [CHR 0x0A] @ ind @ ''  '') (indented_elements rt (ind @ ''  '') xs)
           @ [CHR 0x0A] @ ind @ '']'')"
| "stringify_indented rt ind (JObject ms) =
     (if ms = [] then ''{}''
      else ''{'' @ [CHR 0x0A] @ ind @ ''  ''
           @ join ('','' @ [CHR 0x0A] @ ind @ ''  '') (indented_members rt (ind @ ''  '') ms)
           @ [CHR 0x0A] @ ind @ ''}'')"
| "indented_elements rt ind [] = []"
| "indented_elements rt ind (x # xs) = stringify_indented rt ind x # indented_elements rt ind xs"
| "indented_members rt ind [] = []"
| "indented_members rt ind ((k, v) # ms) =
     (quote k @ '': '' @ stringify_indented rt ind v) # indented_members rt ind ms"

text \<open>What JavaScript takes for true in \<open>value || default\<close>.\<close>

fun truthy :: "json option \<Rightarrow> bool" where
  "truthy None = False"
| "truthy (Some JNull) = False"
| "truthy (Some (JBool b)) = b"
| "truthy (Some (JNumber m e)) = (m \<noteq> 0)"
| "truthy (Some (JString t)) = (t \<noteq> [])"
| "truthy (Some (JArray xs)) = True"
| "truthy (Some (JObject ms)) = True"

text \<open>Evaluation from left to right, up to the first exception.\<close>

definition and_then :: "error + 'a \<Rightarrow> ('a \<Rightarrow> error + 'b) \<Rightarrow> error + 'b" where
  "and_then r f = (case r of Inl err \<Rightarrow> Inl err | Inr x \<Rightarrow> f x)"

text \<open>The markup of the three branches of the palette's handleAIResponse.\<close>

definition success_html :: "runtime \<Rightarrow> json \<Rightarrow> error + string" where
  "success_html rt parsedResponse =
     and_then (field_text rt parsedResponse ''originalCommand'') (\<lambda>originalCommand.
     and_then (field_text rt parsedResponse ''action'') (\<lambda>action.
     and_then (get_property parsedResponse ''parameters'') (\<lambda>parameters.
     and_then (field_text rt parsedResponse ''message'') (\<lambda>message.
       Inr (''Command: '' @ [CHR 0x22] @ originalCommand @ [CHR 0x22, CHR 0x0A]
            @ ''Action: '' @ action @ [CHR 0x0A]
            @ ''Parameters: ''
            @ (case parameters of
                 None \<Rightarrow> ''undefined''
               | Some x \<Rightarrow> stringify_indented rt [] x)
            @ [CHR 0x0A]
            @ ''Result: '' @ message)))))"

definition error_html :: "runtime \<Rightarrow> json \<Rightarrow> error + string" where
  "error_html rt parsedResponse =
     and_then (field_text rt parsedResponse ''message'') (\<lambda>message.
     and_then (field_text rt parsedResponse ''originalCommand'') (\<lambda>originalCommand.
       Inr (''Error: '' @ message @ [CHR 0x0A]
            @ ''Command: '' @ [CHR 0x22] @ originalCommand @ [CHR 0x22])))"

definition processing_html :: "runtime \<Rightarrow> json \<Rightarrow> error + string" where
  "processing_html rt parsedResponse =
     and_then (field_text rt parsedResponse ''originalCommand'') (\<lambda>originalCommand.
     and_then (get_property parsedResponse ''aiResponse'') (\<lambda>aiResponse.
     and_then (if truthy aiResponse then template rt aiResponse else Inr ''Analyzing command...'')
       (\<lambda>answer.
       Inr (''Processing: '' @ [CHR 0x22] @ originalCommand @ [CHR 0x22, CHR 0x0A]
            @ ''AI Response: '' @ answer))))"

definition palette_handleAIResponse_try ::
  "runtime \<Rightarrow> string \<Rightarrow> palette \<Rightarrow> error option \<times> palette" where
  "palette_handleAIResponse_try rt response p =
     (case JSON_parse response of
        Inl err \<Rightarrow> (Some err, p)
      | Inr parsedResponse \<Rightarrow>
          (case get_property parsedResponse ''status'' of
             Inl err \<Rightarrow> (Some err, p)
           | Inr status \<Rightarrow>
               if status = Some (JString ''success'') then
                 (let p1 = showStatus success_banner ''success'' p
                  in case success_html rt parsedResponse of
                       Inl err \<Rightarrow> (Some err, p1)
                     | Inr html \<Rightarrow> (None, p1\<lparr>aiResponse_innerHTML := html\<rparr>))
               else if status = Some (JString ''error'') then
                 (let p1 = showStatus error_banner ''error'' p
                  in case error_html rt parsedResponse of
                       Inl err \<Rightarrow> (Some err, p1)
                     | Inr html \<Rightarrow> (None, p1\<lparr>aiResponse_innerHTML := html\<rparr>))
               else if status = Some (JString ''processing'') then
                 (let p1 = showStatus processing_banner ''loading'' p
                  in case processing_html rt parsedResponse of
                       Inl err \<Rightarrow> (Some err, p1)
                     | Inr html \<Rightarrow> (None, p1\<lparr>aiResponse_innerHTML := html\<rparr>))
               else (None, p)))"

definition palette_handleAIResponse :: "runtime \<Rightarrow> string \<Rightarrow> palette \<Rightarrow> palette" where
  "palette_handleAIResponse rt response p =
     (case palette_handleAIResponse_try rt response p of
        (None, p') \<Rightarrow> p'
      | (Some err, p') \<Rightarrow>
          showStatus ''Response received'' ''success'' (p'\<lparr>aiResponse_innerHTML := response\<rparr>))"

definition palette_updateMessage ::
  "runtime \<Rightarrow> string \<Rightarrow> palette \<Rightarrow> error option \<times> palette" where
  "palette_updateMessage rt messageString p =
     (case JSON_parse messageString of
        Inl err \<Rightarrow> (Some err, p)
      | Inr messageData \<Rightarrow>
          (case and_then (field_text rt messageData ''myText'') (\<lambda>myText.
                and_then (field_text rt messageData ''myExpression'') (\<lambda>myExpression.
                and_then (field_text rt messageData ''myValue'') (\<lambda>myValue.
                  Inr (''<b>Your text</b>: '' @ myText @ '' <br/>''
                       @ ''<b>Your expression</b>: '' @ myExpression @ '' <br/>''
                       @ ''<b>Your value</b>: '' @ myValue)))) of
             Inl err \<Rightarrow> (Some err, p)
           | Inr html \<Rightarrow> (None, p\<lparr>fusionMessage_innerHTML := html\<rparr>)))"

definition palette_handleAIUpdate :: "runtime \<Rightarrow> string \<Rightarrow> palette \<Rightarrow> palette" where
  "palette_handleAIUpdate rt messageString p =
     (case JSON_parse messageString of
        Inr data \<Rightarrow> palette_handleAIResponse rt (JSON_stringify rt data) p
      | Inl err \<Rightarrow> palette_handleAIResponse rt messageString p)"

definition palette_handle :: "runtime \<Rightarrow> string \<Rightarrow> string \<Rightarrow> palette \<Rightarrow> string \<times> palette" where
  "palette_handle rt action data p =
     (if action = ''updateMessage'' then
        (case palette_updateMessage rt data p of
           (None, p') \<Rightarrow> (''OK'', p')
         | (Some err, p') \<Rightarrow> (''OK'', p'))
      else if action = ''aiResponse'' then (''OK'', palette_handleAIUpdate rt data p)
      else if action = ''debugger'' then (''OK'', p)
      else (''Unexpected command type: '' @ action, p))"

definition processing_label :: string where
  "processing_label = [CHR 0xF0, CHR 0x9F, CHR 0x94, CHR 0x84] @ '' Processing...''"

definition execute_label :: string where
  "execute_label = [CHR 0xF0, CHR 0x9F, CHR 0x9A, CHR 0x80] @ '' Execute Command''"

definition sendAICommand :: "runtime \<Rightarrow> palette \<Rightarrow> palette" where
  "sendAICommand rt p =
     (let userCommand = trim (aiCommandInput_value p)
      in if userCommand = [] then showStatus ''Please enter a command first.'' ''error'' p
         else
           (let p1 = p\<lparr>aiSubmitBtn_disabled := True, aiSubmitBtn_textContent := processing_label\<rparr>;
                p2 = showStatus ''Sending command to AI Copilot...'' ''loading'' p1;
                (timestamp, p3) = getDateString rt p2;
                (sessionId, p4) = generateSessionId rt p3
            in p4\<lparr>sent := sent p4
                        @ [(''aiCommand'', JSON_stringify rt (commandData userCommand timestamp sessionId))],
                    pending := Suc (pending p4)\<rparr>))"

definition palette_on_result :: "runtime \<Rightarrow> string \<Rightarrow> palette \<Rightarrow> error option \<times> palette" where
  "palette_on_result rt result p = (None, palette_handleAIResponse rt result p)"

definition palette_on_error :: "error \<Rightarrow> palette \<Rightarrow> error option \<times> palette" where
  "palette_on_error err p =
     (None, showStatus ''Error communicating with Fusion 360. Please try again.'' ''error'' p)"

definition palette_on_finally :: "palette \<Rightarrow> error option \<times> palette" where
  "palette_on_finally p =
     (None, p\<lparr>aiSubmitBtn_disabled := False, aiSubmitBtn_textContent := execute_label\<rparr>)"

definition palette_settle :: "runtime \<Rightarrow> outcome \<Rightarrow> palette \<Rightarrow> palette" where
  "palette_settle rt out p =
     (let p' = snd (promise_chain (palette_on_result rt) palette_on_error palette_on_finally out p)
      in p'\<lparr>pending := pending p' - 1\<rparr>)"

text \<open>A runtime and pages to try the script on.\<close>

definition sample_runtime :: runtime where
  "sample_runtime =
     \<lparr>clock = (\<lambda>n. \<lparr>getDate = 5, getMonth = 2, getFullYear = 2024, getHours = 14,
                     getMinutes = 2, getSeconds = 9, getTime = 1709647329000 + int n\<rparr>),
      random_text = (\<lambda>n. ''0.4fzyo82mvyr''),
      binary64_text = (\<lambda>m e. [])\<rparr>"

definition typed :: "string \<Rightarrow> state" where
  "typed v = initial\<lparr>chatInput_value := v\<rparr>"

definition form :: "string \<Rightarrow> palette" where
  "form v =
     \<lparr>ticks = 0, draws = 0, sent = [], pending = 0,
      aiCommandInput_value = v, aiSubmitBtn_disabled = False,
      aiSubmitBtn_textContent = execute_label, aiResponse_innerHTML = [],
      fusionMessage_innerHTML = [], statusMessage = None, hide_timers = [], nodes = 0\<rparr>"

definition waiting :: state where
  "waiting = sendChatMessage sample_runtime (typed ''Create a 20mm cube'')"

definition reply_success :: string where
  \<open>reply_success = ''{"status":"success","action":"make_hole","parameters":{"d":8}}''\<close>

definition reply_error :: string where
  \<open>reply_error = ''{"status":"error","message":"bad param"}''\<close>

text \<open>\<open>contains pat s\<close>: the text \<open>pat\<close> occurs in \<open>s\<close>.\<close>

fun contains :: "string \<Rightarrow> string \<Rightarrow> bool" where
  "contains pat [] = (pat = [])"
| "contains pat (c # s) = (take (length pat) (c # s) = pat \<or> contains pat s)"

fun is_string :: "json option \<Rightarrow> bool" where
  "is_string (Some (JString t)) = True"
| "is_string _ = False"

section \<open>The status banner is a singleton\<close>

lemma banners_remove_currentStatus:
  "length (filter is_Status (remove_currentStatus xs)) = length (filter is_Status xs) - 1"
  by (induction xs) auto

lemma remove_currentStatus_none:
  "filter is_Status xs = [] \<Longrightarrow> remove_currentStatus xs = xs"
  by (induction xs) (auto split: if_splits)

lemma filter_remove_currentStatus:
  "length (filter is_Status xs) \<le> 1 \<Longrightarrow> filter is_Status (remove_currentStatus xs) = []"
  using banners_remove_currentStatus [of xs] by simp

lemma banners_addMessage [simp]: "banners (addMessage rt c t st) = banners st"
  by (simp add: banners_def addMessage_def)

lemma banners_removeStatusMessage [simp]: "banners (removeStatusMessage st) = banners st - 1"
  by (simp add: banners_def removeStatusMessage_def banners_remove_currentStatus)

lemma banners_addStatusMessage [simp]: "banners (addStatusMessage m t st) = Suc (banners st - 1)"
  by (simp add: banners_def addStatusMessage_def Let_def banners_remove_currentStatus)

lemma banners_timers [simp]: "banners (st\<lparr>timers := ts\<rparr>) = banners st"
  by (simp add: banners_def)

lemma single_addMessage [simp]: "single_banner (addMessage rt c t st) = single_banner st"
  by (simp add: single_banner_def)

lemma single_removeStatusMessage: "single_banner st \<Longrightarrow> single_banner (removeStatusMessage st)"
  by (simp add: single_banner_def)

lemma single_addStatusMessage: "single_banner st \<Longrightarrow> single_banner (addStatusMessage m t st)"
  by (simp add: single_banner_def)

lemma single_handleAIResponse_try:
  assumes "handleAIResponse_try rt response st = (e, s)" and "single_banner st"
  shows "single_banner s"
  using assms
  by (auto simp: handleAIResponse_try_def Let_def single_addStatusMessage
      split: sum.splits if_splits)

lemma single_handleAIResponse:
  assumes "single_banner st"
  shows "single_banner (handleAIResponse rt response st)"
proof -
  obtain e s where res: "handleAIResponse_try rt response (removeStatusMessage st) = (e, s)"
    by (cases "handleAIResponse_try rt response (removeStatusMessage st)")
  from assms have "single_banner (removeStatusMessage st)" by (rule single_removeStatusMessage)
  with res have "single_banner s" by (rule single_handleAIResponse_try)
  with res show ?thesis
    by (cases e) (simp_all add: handleAIResponse_def Let_def single_banner_def)
qed

lemma single_handleAIUpdate:
  "single_banner st \<Longrightarrow> single_banner (handleAIUpdate rt messageString st)"
  by (simp add: handleAIUpdate_def single_handleAIResponse split: sum.splits)

lemma single_updateMessage:
  "single_banner st \<Longrightarrow> single_banner (snd (updateMessage rt messageString st))"
  by (simp add: updateMessage_def split: sum.splits)

lemma single_handle: "single_banner st \<Longrightarrow> single_banner (snd (handle rt action data st))"
  using single_updateMessage [of st rt data]
  by (cases "updateMessage rt data st")
    (auto simp: handle_def single_handleAIUpdate split: option.splits)

lemma single_sendChatMessage: "single_banner st \<Longrightarrow> single_banner (sendChatMessage rt st)"
  by (simp add: sendChatMessage_def Let_def getDateString_def generateSessionId_def banners_def
      single_banner_def addStatusMessage_def addMessage_def banners_remove_currentStatus)

lemma single_settle:
  assumes "single_banner st"
  shows "single_banner (settle rt out st)"
proof -
  have upd: "single_banner (s\<lparr>sendBtn_disabled := b, pending := n\<rparr>) = single_banner s" for s b n
    by (simp add: single_banner_def banners_def)
  show ?thesis
  proof (cases out)
    case (Resolved result)
    then show ?thesis
      using single_handleAIResponse [OF assms, of rt result]
      by (simp add: settle_def promise_chain_def on_result_def on_finally_def upd)
  next
    case Rejected
    then show ?thesis
      using single_removeStatusMessage [OF assms]
      by (simp add: settle_def promise_chain_def on_error_def on_finally_def upd)
  qed
qed

lemma filter_fade_first:
  "length (filter is_Status (fade_first xs)) = length (filter is_Status xs)"
  by (induction xs rule: fade_first.induct) simp_all

lemma filter_remove_node:
  "length (filter is_Status (remove_node n xs)) \<le> length (filter is_Status xs)"
  by (induction xs) auto

lemma single_fire: "single_banner st \<Longrightarrow> single_banner (fire t st)"
  using filter_remove_node [of _ "messagesContainer st"]
  by (cases t)
    (auto simp: single_banner_def banners_def filter_fade_first split: option.splits
      intro: order_trans)

lemma single_step:
  assumes "step rt ev st = Some st'" and "single_banner st"
  shows "single_banner st'"
proof (cases ev)
  case (Input v)
  with assms show ?thesis by (auto simp: single_banner_def banners_def)
next
  case Send
  with assms show ?thesis by (auto simp: single_sendChatMessage)
next
  case (Settle out)
  with assms show ?thesis by (auto simp: single_settle split: if_splits)
next
  case (Host action data)
  with assms show ?thesis by (auto simp: single_handle)
next
  case (Fire t)
  from assms(2) have "single_banner (st\<lparr>timers := remove1 t (timers st)\<rparr>)"
    by (simp add: single_banner_def)
  then have "single_banner (fire t (st\<lparr>timers := remove1 t (timers st)\<rparr>))"
    by (rule single_fire)
  with assms(1) Fire show ?thesis by (auto split: if_splits)
qed

lemma reachable_single: "reachable rt st \<Longrightarrow> single_banner st"
proof (induction rule: reachable.induct)
  case at_load
  show ?case by (simp add: single_banner_def banners_def initial_def)
next
  case (after st ev st')
  then show ?case using single_step by blast
qed

lemma waiting_container:
  "messagesContainer waiting
    = [Message ''assistant'' ''AI'' welcome_text, Message ''user'' ''U'' ''Create a 20mm cube'',
       Status 0 ''loading'' analyzing_banner True False]"
  "created waiting = 1"
proof -
  have "trim ''Create a 20mm cube'' = ''Create a 20mm cube''" by code_simp
  then show "messagesContainer waiting
    = [Message ''assistant'' ''AI'' welcome_text, Message ''user'' ''U'' ''Create a 20mm cube'',
       Status 0 ''loading'' analyzing_banner True False]"
    and "created waiting = 1"
    by (simp_all add: waiting_def typed_def initial_def sendChatMessage_def Let_def addMessage_def
        addStatusMessage_def getDateString_def generateSessionId_def)
qed

lemma reachable_waiting: "reachable sample_runtime waiting"
proof -
  have "step sample_runtime (Input ''Create a 20mm cube'') initial
      = Some (typed ''Create a 20mm cube'')"
    by (simp add: typed_def)
  with reachable.at_load have "reachable sample_runtime (typed ''Create a 20mm cube'')"
    by (rule reachable.after)
  moreover have "step sample_runtime Send (typed ''Create a 20mm cube'') = Some waiting"
    by (simp add: waiting_def)
  ultimately show ?thesis by (rule reachable.after)
qed

text \<open>
  Claim C8. In every state that the page can reach there is at most one status banner.
  There, addStatusMessage leaves exactly one banner, the new one, whatever was shown before
  (it replaces, it does not stack), removeStatusMessage on a page without banner changes
  nothing, and removing twice is the same as removing once.
\<close>

theorem C8_status_banner_singleton:
  assumes "reachable rt st"
  shows "banners st \<le> 1
    \<and> filter is_Status (messagesContainer (addStatusMessage message type st))
        = [Status (created st) type message (type = ''loading'') False]
    \<and> (banners st = 0 \<longrightarrow> removeStatusMessage st = st)
    \<and> removeStatusMessage (removeStatusMessage st) = removeStatusMessage st"
proof -
  from assms have "single_banner st" by (rule reachable_single)
  then have le: "length (filter is_Status (messagesContainer st)) \<le> 1"
    by (simp add: single_banner_def banners_def)
  then have none: "filter is_Status (remove_currentStatus (messagesContainer st)) = []"
    by (rule filter_remove_currentStatus)
  have "banners st \<le> 1" using le by (simp add: banners_def)
  moreover have "filter is_Status (messagesContainer (addStatusMessage message type st))
        = [Status (created st) type message (type = ''loading'') False]"
    using none by (simp add: addStatusMessage_def Let_def)
  moreover have "banners st = 0 \<longrightarrow> removeStatusMessage st = st"
    by (simp add: banners_def removeStatusMessage_def remove_currentStatus_none)
  moreover have "removeStatusMessage (removeStatusMessage st) = removeStatusMessage st"
    using none by (simp add: removeStatusMessage_def remove_currentStatus_none)
  ultimately show ?thesis by blast
qed

theorem C8_status_banner_singleton_witness:
  "reachable sample_runtime waiting \<and> banners waiting = 1
    \<and> filter is_Status (messagesContainer (addStatusMessage success_banner ''success'' waiting))
        = [Status 1 ''success'' success_banner False False]
    \<and> reachable sample_runtime initial \<and> banners initial = 0
    \<and> removeStatusMessage initial = initial"
  using C8_status_banner_singleton [where rt = sample_runtime and st = waiting
      and message = success_banner and type = "''success''"]
    C8_status_banner_singleton [where rt = sample_runtime and st = initial]
    reachable_waiting reachable.at_load [of sample_runtime]
  by (simp add: banners_def initial_def waiting_container)

section \<open>What handleAIResponse shows\<close>

lemma remove_currentStatus_filter:
  "length (filter is_Status xs) \<le> 1 \<Longrightarrow> remove_currentStatus xs = filter (\<lambda>x. \<not> is_Status x) xs"
proof (induction xs)
  case Nil
  show ?case by simp
next
  case (Cons x xs)
  show ?case
  proof (cases "is_Status x")
    case True
    with Cons.prems have "filter is_Status xs = []" by simp
    then have "filter (\<lambda>x. \<not> is_Status x) xs = xs"
      by (induction xs) (auto split: if_splits)
    with True show ?thesis by simp
  next
    case False
    with Cons show ?thesis by simp
  qed
qed

lemma reachable_removed:
  assumes "reachable rt st"
  shows "remove_currentStatus (messagesContainer st) = filter (\<lambda>x. \<not> is_Status x) (messagesContainer st)"
    and "remove_currentStatus (filter (\<lambda>x. \<not> is_Status x) (messagesContainer st))
          = filter (\<lambda>x. \<not> is_Status x) (messagesContainer st)"
proof -
  from assms have "single_banner st" by (rule reachable_single)
  then have "length (filter is_Status (messagesContainer st)) \<le> 1"
    by (simp add: single_banner_def banners_def)
  then show "remove_currentStatus (messagesContainer st)
      = filter (\<lambda>x. \<not> is_Status x) (messagesContainer st)"
    by (rule remove_currentStatus_filter)
  show "remove_currentStatus (filter (\<lambda>x. \<not> is_Status x) (messagesContainer st))
      = filter (\<lambda>x. \<not> is_Status x) (messagesContainer st)"
    by (rule remove_currentStatus_none) simp
qed

lemma handleAIResponse_caught:
  assumes "handleAIResponse_try rt response (removeStatusMessage st) = (Some err, s)"
  shows "handleAIResponse rt response st
    = (addMessage rt response ''assistant'' s)\<lparr>timers := timers s @ [AutoRemove]\<rparr>"
  using assms by (simp add: handleAIResponse_def Let_def addMessage_def)

lemma handleAIResponse_passed:
  assumes "handleAIResponse_try rt response (removeStatusMessage st) = (None, s)"
  shows "handleAIResponse rt response st = s\<lparr>timers := timers s @ [AutoRemove]\<rparr>"
  using assms by (simp add: handleAIResponse_def Let_def)

text \<open>
  Claim C4. A reply that \<open>JSON.parse\<close> rejects is shown as it is: handleAIResponse removes the
  current banner, if any, and appends exactly one assistant bubble whose content is the reply,
  to the page and to the history. The throw of \<open>JSON.parse\<close> is caught inside, so the function
  returns; it creates no banner.
\<close>

theorem C4_unparsable_reply_shown_as_text:
  assumes "JSON_parse response = Inl err"
  shows "messagesContainer (handleAIResponse rt response st)
      = remove_currentStatus (messagesContainer st) @ [Message ''assistant'' ''AI'' response]
    \<and> messageHistory (handleAIResponse rt response st)
      = messageHistory st
        @ [\<lparr>h_content = response, h_type = ''assistant'', h_timestamp = clock rt (ticks st)\<rparr>]
    \<and> banners (handleAIResponse rt response st) = banners st - 1"
proof -
  have "handleAIResponse_try rt response (removeStatusMessage st) = (Some err, removeStatusMessage st)"
    using assms by (simp add: handleAIResponse_try_def)
  then have "handleAIResponse rt response st
      = (addMessage rt response ''assistant'' (removeStatusMessage st))
          \<lparr>timers := timers (removeStatusMessage st) @ [AutoRemove]\<rparr>"
    by (rule handleAIResponse_caught)
  then show ?thesis
    by (simp add: addMessage_def removeStatusMessage_def banners_def banners_remove_currentStatus)
qed

lemma parse_hello: "JSON_parse ''hello'' = Inl SyntaxError"
  by code_simp

theorem C4_unparsable_reply_shown_as_text_witness:
  "JSON_parse ''hello'' = Inl SyntaxError
    \<and> messagesContainer (handleAIResponse sample_runtime ''hello'' initial)
      = [Message ''assistant'' ''AI'' welcome_text, Message ''assistant'' ''AI'' ''hello'']
    \<and> map h_content (messageHistory (handleAIResponse sample_runtime ''hello'' initial)) = [''hello'']"
  using C4_unparsable_reply_shown_as_text [OF parse_hello, of sample_runtime initial] parse_hello
  by (simp add: initial_def)

lemma parse_reply_success:
  "JSON_parse reply_success
    = Inr (JObject [(''status'', JString ''success''), (''action'', JString ''make_hole''),
                    (''parameters'', JObject [(''d'', JNumber 8 0)])])"
  unfolding reply_success_def by code_simp

lemma parse_reply_error:
  "JSON_parse reply_error
    = Inr (JObject [(''status'', JString ''error''), (''message'', JString ''bad param'')])"
  unfolding reply_error_def by code_simp

lemma digits_8: "digits 8 = ''8''"
  by code_simp

lemma number_text_8: "number_text rt 8 0 = ''8''"
  by (simp add: number_text_def strip_zeros.simps digits_8 decimal_text_def)

lemma summary_reply_success:
  \<open>created_summary rt
      (JObject [(''status'', JString ''success''), (''action'', JString ''make_hole''),
                (''parameters'', JObject [(''d'', JNumber 8 0)])])
    = Inr ''Created: make hole with parameters: {"d":8}''\<close>
  by (simp add: created_summary_def action_replace_def number_text_8 quote_def escape_head_def
      lone_surrogate_def)

lemma try_reply_success:
  \<open>handleAIResponse_try rt reply_success st
    = (None, addMessage rt ''Created: make hole with parameters: {"d":8}'' ''assistant''
               (addStatusMessage success_banner ''success'' st))\<close>
  by (simp add: handleAIResponse_try_def parse_reply_success summary_reply_success Let_def)

lemma try_reply_error:
  "handleAIResponse_try rt reply_error st
    = (None, addMessage rt ''Error: bad param'' ''assistant''
               (addStatusMessage error_banner ''error'' st))"
  by (simp add: handleAIResponse_try_def parse_reply_error field_text_def template_def Let_def)

text \<open>
  Claim C5, as amended. For the reply
  \<open>{"status":"success","action":"make_hole","parameters":{"d":8}}\<close>, on any page that
  can be reached, handleAIResponse leaves exactly one banner, the success banner, and
  appends exactly one assistant bubble after it. Its content is
  \<open>Created: make hole with parameters: {"d":8}\<close>: the action with its first underscore
  replaced by a space, and the serialized parameters.
\<close>

theorem C5_success_reply:
  assumes "reachable rt st"
  shows
    \<open>messagesContainer (handleAIResponse rt reply_success st)
      = filter (\<lambda>x. \<not> is_Status x) (messagesContainer st)
        @ [Status (created st) ''success'' success_banner False False,
           Message ''assistant'' ''AI'' ''Created: make hole with parameters: {"d":8}'']
    \<and> messageHistory (handleAIResponse rt reply_success st)
      = messageHistory st
        @ [\<lparr>h_content = ''Created: make hole with parameters: {"d":8}'', h_type = ''assistant'',
            h_timestamp = clock rt (ticks st)\<rparr>]
    \<and> filter is_Status (messagesContainer (handleAIResponse rt reply_success st))
      = [Status (created st) ''success'' success_banner False False]
    \<and> contains (replace_first ''_'' '' '' ''make_hole'') ''Created: make hole with parameters: {"d":8}''
    \<and> contains ''{"d":8}'' ''Created: make hole with parameters: {"d":8}''\<close>
proof -
  have \<open>handleAIResponse rt reply_success st
      = (addMessage rt ''Created: make hole with parameters: {"d":8}'' ''assistant''
           (addStatusMessage success_banner ''success'' (removeStatusMessage st)))
          \<lparr>timers := timers st @ [AutoRemove]\<rparr>\<close>
    by (simp add: handleAIResponse_passed [OF try_reply_success] addMessage_def
        addStatusMessage_def removeStatusMessage_def)
  then show ?thesis
    by (simp add: addMessage_def addStatusMessage_def removeStatusMessage_def
        reachable_removed [OF assms])
qed

theorem C5_success_reply_witness:
  \<open>reachable sample_runtime initial
    \<and> messagesContainer (handleAIResponse sample_runtime reply_success initial)
      = [Message ''assistant'' ''AI'' welcome_text,
         Status 0 ''success'' success_banner False False,
         Message ''assistant'' ''AI'' ''Created: make hole with parameters: {"d":8}'']\<close>
  using C5_success_reply [OF reachable.at_load, of sample_runtime] reachable.at_load [of sample_runtime]
  by (simp add: initial_def)

text \<open>
  The claim as it was stated fails: the bubble that the reply produces does not contain the
  action \<open>make_hole\<close>.
\<close>

theorem C5_success_reply_counterexample:
  \<open>messagesContainer (handleAIResponse sample_runtime reply_success initial)
      = [Message ''assistant'' ''AI'' welcome_text,
         Status 0 ''success'' success_banner False False,
         Message ''assistant'' ''AI'' ''Created: make hole with parameters: {"d":8}'']
    \<and> \<not> contains ''make_hole'' ''Created: make hole with parameters: {"d":8}''\<close>
  by (simp add: handleAIResponse_passed [OF try_reply_success] addMessage_def
      addStatusMessage_def removeStatusMessage_def initial_def)

text \<open>
  Claim C6. For the reply \<open>{"status":"error","message":"bad param"}\<close>, on any page that can
  be reached, handleAIResponse leaves exactly one banner, the error banner, and appends
  exactly one assistant bubble after it, whose content \<open>Error: bad param\<close> contains
  \<open>bad param\<close>.
\<close>

theorem C6_error_reply:
  assumes "reachable rt st"
  shows
    "messagesContainer (handleAIResponse rt reply_error st)
      = filter (\<lambda>x. \<not> is_Status x) (messagesContainer st)
        @ [Status (created st) ''error'' error_banner False False,
           Message ''assistant'' ''AI'' ''Error: bad param'']
    \<and> messageHistory (handleAIResponse rt reply_error st)
      = messageHistory st
        @ [\<lparr>h_content = ''Error: bad param'', h_type = ''assistant'',
            h_timestamp = clock rt (ticks st)\<rparr>]
    \<and> filter is_Status (messagesContainer (handleAIResponse rt reply_error st))
      = [Status (created st) ''error'' error_banner False False]
    \<and> contains ''bad param'' ''Error: bad param''"
proof -
  have "handleAIResponse rt reply_error st
      = (addMessage rt ''Error: bad param'' ''assistant''
           (addStatusMessage error_banner ''error'' (removeStatusMessage st)))
          \<lparr>timers := timers st @ [AutoRemove]\<rparr>"
    by (simp add: handleAIResponse_passed [OF try_reply_error] addMessage_def
        addStatusMessage_def removeStatusMessage_def)
  then show ?thesis
    by (simp add: addMessage_def addStatusMessage_def removeStatusMessage_def
        reachable_removed [OF assms])
qed

theorem C6_error_reply_witness:
  "reachable sample_runtime initial
    \<and> messagesContainer (handleAIResponse sample_runtime reply_error initial)
      = [Message ''assistant'' ''AI'' welcome_text,
         Status 0 ''error'' error_banner False False,
         Message ''assistant'' ''AI'' ''Error: bad param'']"
  using C6_error_reply [OF reachable.at_load, of sample_runtime] reachable.at_load [of sample_runtime]
  by (simp add: initial_def)

lemma parse_null: "JSON_parse ''null'' = Inr JNull"
  by code_simp

lemma parse_empty_object: "JSON_parse ''{}'' = Inr (JObject [])"
  by code_simp

text \<open>
  Claim C7, as amended. For every reply that parses to a JSON value other than \<open>null\<close> whose
  \<open>status\<close> is missing or is none of \<open>success\<close>, \<open>error\<close>, \<open>processing\<close>, handleAIResponse
  appends no message and creates no banner: all it does is to remove the current banner, if
  there is one, and to schedule the auto-removal. (Reading \<open>status\<close> succeeds exactly on
  the values other than \<open>null\<close>.)
\<close>

theorem C7_unrecognised_status_dropped:
  assumes "JSON_parse response = Inr v"
    and "get_property v ''status'' = Inr status"
    and "status \<noteq> Some (JString ''success'')"
    and "status \<noteq> Some (JString ''error'')"
    and "status \<noteq> Some (JString ''processing'')"
  shows "handleAIResponse rt response st
      = st\<lparr>messagesContainer := remove_currentStatus (messagesContainer st),
            timers := timers st @ [AutoRemove]\<rparr>
    \<and> messageHistory (handleAIResponse rt response st) = messageHistory st
    \<and> banners (handleAIResponse rt response st) = banners st - 1"
proof -
  have "handleAIResponse_try rt response (removeStatusMessage st) = (None, removeStatusMessage st)"
    using assms by (simp add: handleAIResponse_try_def)
  then have "handleAIResponse rt response st
      = (removeStatusMessage st)\<lparr>timers := timers (removeStatusMessage st) @ [AutoRemove]\<rparr>"
    by (rule handleAIResponse_passed)
  then show ?thesis
    by (simp add: removeStatusMessage_def banners_def banners_remove_currentStatus)
qed

theorem C7_unrecognised_status_dropped_witness:
  "JSON_parse ''{}'' = Inr (JObject [])
    \<and> get_property (JObject []) ''status'' = Inr None
    \<and> handleAIResponse sample_runtime ''{}'' initial = initial\<lparr>timers := [AutoRemove]\<rparr>"
  using C7_unrecognised_status_dropped [OF parse_empty_object, of None sample_runtime initial]
    parse_empty_object
  by (simp add: initial_def)

text \<open>
  The claim as it was stated fails twice. The reply \<open>null\<close> parses and has no \<open>status\<close>, yet
  an assistant bubble \<open>null\<close> is appended. And the reply \<open>{}\<close>, arriving while the loading
  banner of a sent command is shown, makes that banner disappear.
\<close>

theorem C7_unrecognised_status_dropped_counterexample:
  "JSON_parse ''null'' = Inr JNull
    \<and> messagesContainer (handleAIResponse sample_runtime ''null'' initial)
      = messagesContainer initial @ [Message ''assistant'' ''AI'' ''null'']
    \<and> JSON_parse ''{}'' = Inr (JObject [])
    \<and> messagesContainer waiting
      = [Message ''assistant'' ''AI'' welcome_text, Message ''user'' ''U'' ''Create a 20mm cube'',
         Status 0 ''loading'' analyzing_banner True False]
    \<and> messagesContainer (handleAIResponse sample_runtime ''{}'' waiting)
      = [Message ''assistant'' ''AI'' welcome_text, Message ''user'' ''U'' ''Create a 20mm cube'']"
proof -
  have "handleAIResponse_try sample_runtime ''null'' (removeStatusMessage initial)
      = (Some TypeError, removeStatusMessage initial)"
    by (simp add: handleAIResponse_try_def parse_null)
  then have "messagesContainer (handleAIResponse sample_runtime ''null'' initial)
      = messagesContainer initial @ [Message ''assistant'' ''AI'' ''null'']"
    by (simp add: handleAIResponse_caught addMessage_def removeStatusMessage_def initial_def)
  moreover have "handleAIResponse_try sample_runtime ''{}'' (removeStatusMessage waiting)
      = (None, removeStatusMessage waiting)"
    by (simp add: handleAIResponse_try_def parse_empty_object)
  then have "messagesContainer (handleAIResponse sample_runtime ''{}'' waiting)
      = [Message ''assistant'' ''AI'' welcome_text, Message ''user'' ''U'' ''Create a 20mm cube'']"
    by (simp add: handleAIResponse_passed removeStatusMessage_def waiting_container)
  ultimately show ?thesis
    by (simp add: parse_null parse_empty_object waiting_container)
qed

text \<open>
  Claim C10. For every reply that parses as JSON with \<open>status\<close> \<open>success\<close> whose \<open>action\<close> is
  missing or is not a string, building the summary throws after the success banner was added;
  the \<open>catch\<close> of handleAIResponse then appends the raw reply as an assistant bubble. On any
  page that can be reached, the result is the success banner followed by that bubble.
\<close>

theorem C10_success_without_action:
  assumes "reachable rt st"
    and "JSON_parse response = Inr v"
    and "get_property v ''status'' = Inr (Some (JString ''success''))"
    and "get_property v ''action'' = Inr action"
    and "\<not> is_string action"
  shows "created_summary rt v = Inl TypeError
    \<and> messagesContainer (handleAIResponse rt response st)
      = filter (\<lambda>x. \<not> is_Status x) (messagesContainer st)
        @ [Status (created st) ''success'' success_banner False False,
           Message ''assistant'' ''AI'' response]
    \<and> messageHistory (handleAIResponse rt response st)
      = messageHistory st
        @ [\<lparr>h_content = response, h_type = ''assistant'', h_timestamp = clock rt (ticks st)\<rparr>]"
proof -
  from assms(5) have "action_replace action = Inl TypeError"
    by (cases action rule: is_string.cases) (simp_all add: action_replace_def)
  with assms(4) have thrown: "created_summary rt v = Inl TypeError"
    by (simp add: created_summary_def)
  with assms(2,3) have "handleAIResponse_try rt response (removeStatusMessage st)
      = (Some TypeError, addStatusMessage success_banner ''success'' (removeStatusMessage st))"
    by (simp add: handleAIResponse_try_def Let_def)
  then have "handleAIResponse rt response st
      = (addMessage rt response ''assistant''
           (addStatusMessage success_banner ''success'' (removeStatusMessage st)))
          \<lparr>timers := timers st @ [AutoRemove]\<rparr>"
    by (simp add: handleAIResponse_caught addStatusMessage_def removeStatusMessage_def)
  with thrown show ?thesis
    by (simp add: addMessage_def addStatusMessage_def removeStatusMessage_def
        reachable_removed [OF assms(1)])
qed

lemma parse_success_only:
  \<open>JSON_parse ''{"status":"success","action":8}''
    = Inr (JObject [(''status'', JString ''success''), (''action'', JNumber 8 0)])\<close>
  by code_simp

theorem C10_success_without_action_witness:
  \<open>reachable sample_runtime initial
    \<and> JSON_parse ''{"status":"success","action":8}''
      = Inr (JObject [(''status'', JString ''success''), (''action'', JNumber 8 0)])
    \<and> \<not> is_string (Some (JNumber 8 0))
    \<and> messagesContainer (handleAIResponse sample_runtime ''{"status":"success","action":8}'' initial)
      = [Message ''assistant'' ''AI'' welcome_text,
         Status 0 ''success'' success_banner False False,
         Message ''assistant'' ''AI'' ''{"status":"success","action":8}'']\<close>
  using C10_success_without_action [OF reachable.at_load parse_success_only,
      of "Some (JNumber 8 0)" sample_runtime]
    reachable.at_load [of sample_runtime] parse_success_only
  by (simp add: initial_def)

section \<open>What sendChatMessage sends\<close>

lemma sendChatMessage_sends:
  assumes "trim (chatInput_value st) \<noteq> []"
  shows "sendChatMessage rt st
    = st\<lparr>chatInput_value := [], sendBtn_disabled := True,
          messagesContainer :=
            remove_currentStatus
              (messagesContainer st @ [Message ''user'' ''U'' (trim (chatInput_value st))])
            @ [Status (created st) ''loading'' analyzing_banner True False],
          messageHistory :=
            messageHistory st
            @ [\<lparr>h_content = trim (chatInput_value st), h_type = ''user'',
                h_timestamp = clock rt (ticks st)\<rparr>],
          sent :=
            sent st
            @ [(''aiCommand'',
                JSON_stringify rt
                  (commandData (trim (chatInput_value st))
                     (fst (getDateString rt (st\<lparr>ticks := Suc (ticks st)\<rparr>)))
                     (fst (generateSessionId rt (st\<lparr>ticks := Suc (Suc (ticks st))\<rparr>)))))],
          pending := Suc (pending st), created := Suc (created st),
          ticks := Suc (Suc (Suc (ticks st))), draws := Suc (draws st)\<rparr>"
  using assms
  by (simp add: sendChatMessage_def Let_def addMessage_def addStatusMessage_def
      getDateString_def generateSessionId_def)

lemma quote_command: \<open>quote ''command'' = ''"command"''\<close>
  by code_simp

lemma quote_timestamp: \<open>quote ''timestamp'' = ''"timestamp"''\<close>
  by code_simp

lemma quote_sessionId: \<open>quote ''sessionId'' = ''"sessionId"''\<close>
  by code_simp

lemma stringify_commandData:
  \<open>JSON_stringify rt (commandData c t i)
    = ''{"command":'' @ quote c @ '',"timestamp":'' @ quote t @ '',"sessionId":'' @ quote i @ ''}''\<close>
  by (simp add: commandData_def quote_command quote_timestamp quote_sessionId)

text \<open>
  Claim C9. For every command that is not empty after trimming, sendChatMessage makes exactly
  one bridge call, on channel \<open>aiCommand\<close>, and its payload is the serialization of an object
  with the three members \<open>command\<close>, \<open>timestamp\<close> and \<open>sessionId\<close>, in this order: the
  trimmed input, the text \<open>Date: D/M/YYYY, Time: H:M:S\<close> of the clock reading taken for it
  (month counted from 1, nothing padded), and \<open>session_\<close> followed by up to nine characters of a
  random number drawn for this send, an underscore and the milliseconds of the clock. The
  next send draws the next random number.
\<close>

theorem C9_outbound_payload:
  assumes "trim (chatInput_value st) \<noteq> []"
  shows
    \<open>let userCommand = trim (chatInput_value st);
         today = clock rt (Suc (ticks st));
         timestamp = ''Date: '' @ show_int (getDate today) @ ''/'' @ show_int (getMonth today + 1)
                     @ ''/'' @ show_int (getFullYear today) @ '', Time: ''
                     @ show_int (getHours today) @ '':'' @ show_int (getMinutes today) @ '':''
                     @ show_int (getSeconds today);
         sessionId = ''session_'' @ take 9 (drop 2 (random_text rt (draws st))) @ ''_''
                     @ show_int (getTime (clock rt (Suc (Suc (ticks st)))));
         payload = JSON_stringify rt
                     (JObject [(''command'', JString userCommand), (''timestamp'', JString timestamp),
                               (''sessionId'', JString sessionId)])
     in sent (sendChatMessage rt st) = sent st @ [(''aiCommand'', payload)]
        \<and> payload = ''{"command":'' @ quote userCommand @ '',"timestamp":'' @ quote timestamp
                      @ '',"sessionId":'' @ quote sessionId @ ''}''
        \<and> draws (sendChatMessage rt st) = Suc (draws st)\<close>
proof -
  let ?c = "trim (chatInput_value st)"
  let ?t = "''Date: '' @ show_int (getDate (clock rt (Suc (ticks st)))) @ ''/''
        @ show_int (getMonth (clock rt (Suc (ticks st))) + 1) @ ''/''
        @ show_int (getFullYear (clock rt (Suc (ticks st)))) @ '', Time: ''
        @ show_int (getHours (clock rt (Suc (ticks st)))) @ '':''
        @ show_int (getMinutes (clock rt (Suc (ticks st)))) @ '':''
        @ show_int (getSeconds (clock rt (Suc (ticks st))))"
  let ?i = "''session_'' @ take 9 (drop 2 (random_text rt (draws st))) @ ''_''
        @ show_int (getTime (clock rt (Suc (Suc (ticks st)))))"
  have ts: "fst (getDateString rt (st\<lparr>ticks := Suc (ticks st)\<rparr>)) = ?t"
    by (simp add: getDateString_def Let_def)
  have sid: "fst (generateSessionId rt (st\<lparr>ticks := Suc (Suc (ticks st))\<rparr>)) = ?i"
    by (simp add: generateSessionId_def)
  have a: "sent (sendChatMessage rt st)
      = sent st @ [(''aiCommand'', JSON_stringify rt (commandData ?c ?t ?i))]"
    unfolding sendChatMessage_sends [OF assms] ts sid by simp
  have b: \<open>JSON_stringify rt (commandData ?c ?t ?i)
      = ''{"command":'' @ quote ?c @ '',"timestamp":'' @ quote ?t
        @ '',"sessionId":'' @ quote ?i @ ''}''\<close>
    by (rule stringify_commandData)
  have c: "draws (sendChatMessage rt st) = Suc (draws st)"
    unfolding sendChatMessage_sends [OF assms] by simp
  show ?thesis
    unfolding Let_def
    by (rule conjI, rule a [unfolded commandData_def], rule conjI,
        rule b [unfolded commandData_def], rule c)
qed

lemma trim_cube: "trim ''  Create a 20mm cube '' = ''Create a 20mm cube''"
  by code_simp

lemma show_int_samples:
  "show_int 5 = ''5''" "show_int 3 = ''3''" "show_int 2024 = ''2024''" "show_int 14 = ''14''"
  "show_int 2 = ''2''" "show_int 9 = ''9''" "show_int 1709647329002 = ''1709647329002''"
  by code_simp+

lemma quote_samples:
  \<open>quote ''Create a 20mm cube'' = ''"Create a 20mm cube"''\<close>
  \<open>quote ''Date: 5/3/2024, Time: 14:2:9'' = ''"Date: 5/3/2024, Time: 14:2:9"''\<close>
  \<open>quote ''session_4fzyo82mv_1709647329002'' = ''"session_4fzyo82mv_1709647329002"''\<close>
  by code_simp+

theorem C9_outbound_payload_witness:
  \<open>trim (chatInput_value (typed ''  Create a 20mm cube '')) \<noteq> []
    \<and> sent (sendChatMessage sample_runtime (typed ''  Create a 20mm cube ''))
      = [(''aiCommand'',
          ''{"command":"Create a 20mm cube","timestamp":"Date: 5/3/2024, Time: 14:2:9","sessionId":"session_4fzyo82mv_1709647329002"}'')]
    \<and> draws (sendChatMessage sample_runtime (typed ''  Create a 20mm cube '')) = 1\<close>
proof -
  have ne: "trim (chatInput_value (typed ''  Create a 20mm cube '')) \<noteq> []"
    by (simp add: typed_def trim_cube)
  have clock: "clock sample_runtime n
      = \<lparr>getDate = 5, getMonth = 2, getFullYear = 2024, getHours = 14, getMinutes = 2,
         getSeconds = 9, getTime = 1709647329000 + int n\<rparr>" for n
    by (simp add: sample_runtime_def)
  have random: "random_text sample_runtime n = ''0.4fzyo82mvyr''" for n
    by (simp add: sample_runtime_def)
  have st: "chatInput_value (typed ''  Create a 20mm cube '') = ''  Create a 20mm cube ''"
    "ticks (typed ''  Create a 20mm cube '') = 0" "draws (typed ''  Create a 20mm cube '') = 0"
    "sent (typed ''  Create a 20mm cube '') = []"
    by (simp_all add: typed_def initial_def)
  from C9_outbound_payload [OF ne, of sample_runtime] ne show ?thesis
    unfolding Let_def st trim_cube clock random
    by (simp add: show_int_samples quote_samples)
qed

section \<open>Sending, and the button afterwards\<close>

lemma strip_Nil: "strip codes [] = []"
  using leading_le [of codes "[]"] by (simp add: strip.simps)

lemma blank_trimStart: "blank s \<Longrightarrow> trimStart s = []"
  unfolding trimStart_def
proof (induction s rule: blank.induct)
  case (1 s)
  show ?case
  proof (cases "s = []")
    case True
    then show ?thesis by (simp add: strip_Nil)
  next
    case False
    with "1.prems" have nz: "leading whitespace_codes s \<noteq> 0"
      and rest: "blank (drop (leading whitespace_codes s) s)"
      by (simp_all add: blank.simps [of s] split: if_splits)
    from "1.IH" [OF False nz rest] nz show ?thesis
      by (simp add: strip.simps [of _ s])
  qed
qed

lemma blank_trim: "blank s \<Longrightarrow> trim s = []"
  by (simp add: trim_def blank_trimStart trimEnd_def strip_Nil)

text \<open>
  Conversely, a text that \<open>trim\<close> empties is blank: every input is either blank or not empty
  after trimming.
\<close>

lemma leading_code:
  assumes "leading codes s \<noteq> 0"
  shows "take (leading codes s) s \<in> set codes"
proof (cases "filter (\<lambda>w. take (length w) s = w) codes")
  case Nil
  with assms show ?thesis by (simp add: leading_def)
next
  case (Cons w ws)
  then have "w \<in> set (filter (\<lambda>w. take (length w) s = w) codes)" by simp
  then have "w \<in> set codes" and "take (length w) s = w" by simp_all
  with Cons show ?thesis by (simp add: leading_def)
qed

lemma leading_prefix:
  assumes "[] \<notin> set codes" and "w \<in> set codes"
  shows "leading codes (w @ r) \<noteq> 0"
proof (cases "filter (\<lambda>v. take (length v) (w @ r) = v) codes")
  case Nil
  moreover from assms(2) have "w \<in> set (filter (\<lambda>v. take (length v) (w @ r) = v) codes)" by simp
  ultimately show ?thesis by simp
next
  case (Cons v vs)
  then have "v \<in> set (filter (\<lambda>v. take (length v) (w @ r) = v) codes)" by simp
  then have "v \<in> set codes" by simp
  with assms(1) have "v \<noteq> []" by auto
  with Cons show ?thesis by (simp add: leading_def)
qed

lemma leading_strip: "leading codes (strip codes s) = 0"
  by (induction codes s rule: strip.induct) (simp add: strip.simps)

lemma strip_empty_concat:
  "strip codes s = [] \<Longrightarrow> \<exists>ws. set ws \<subseteq> set codes \<and> s = concat ws"
proof (induction codes s rule: strip.induct)
  case (1 codes s)
  show ?case
  proof (cases "leading codes s = 0")
    case True
    with "1.prems" have "s = []" by (simp add: strip.simps [of codes s])
    then have "set [] \<subseteq> set codes \<and> s = concat []" by simp
    then show ?thesis by blast
  next
    case False
    with "1.prems" have "strip codes (drop (leading codes s) s) = []"
      by (simp add: strip.simps [of codes s])
    with "1.IH" [OF False] obtain ws where
      ws: "set ws \<subseteq> set codes" "drop (leading codes s) s = concat ws" by blast
    from False have "take (leading codes s) s \<in> set codes" by (rule leading_code)
    with ws(1) have "set (take (leading codes s) s # ws) \<subseteq> set codes" by simp
    moreover from ws(2) have "s = concat (take (leading codes s) s # ws)"
      by (metis append_take_drop_id concat.simps(2))
    ultimately show ?thesis by blast
  qed
qed

lemma strip_empty_blank: "strip whitespace_codes s = [] \<Longrightarrow> blank s"
proof (induction s rule: blank.induct)
  case (1 s)
  show ?case
  proof (cases "s = []")
    case True
    then show ?thesis by (simp add: blank.simps)
  next
    case False
    with "1.prems" have nz: "leading whitespace_codes s \<noteq> 0"
      by (cases "leading whitespace_codes s = 0") (simp_all add: strip.simps [of whitespace_codes s])
    with "1.prems" have "strip whitespace_codes (drop (leading whitespace_codes s) s) = []"
      by (simp add: strip.simps [of whitespace_codes s])
    with "1.IH" [OF False nz] nz False show ?thesis
      by (simp add: blank.simps [of s])
  qed
qed

lemma trim_empty_blank:
  assumes "trim s = []"
  shows "blank s"
proof -
  define t where "t = strip whitespace_codes s"
  from assms have "strip (map rev whitespace_codes) (rev t) = []"
    by (simp add: trim_def trimStart_def trimEnd_def t_def)
  then obtain ws where ws: "set ws \<subseteq> set (map rev whitespace_codes)" "rev t = concat ws"
    using strip_empty_concat by blast
  have no_empty: "[] \<notin> set whitespace_codes" by (simp add: whitespace_codes_def)
  have "t = []"
  proof (rule ccontr)
    assume "t \<noteq> []"
    with ws(2) have "ws \<noteq> []" by auto
    then obtain vs v where split: "ws = vs @ [v]" by (metis rev_exhaust)
    with ws(1) have "rev v \<in> set whitespace_codes" by auto
    moreover from split ws(2) have "t = rev v @ rev (concat vs)"
      by (metis concat.simps(1,2) concat_append rev_append rev_rev_ident append_Nil2)
    ultimately have "leading whitespace_codes t \<noteq> 0"
      using leading_prefix [OF no_empty] by simp
    then show False by (simp add: t_def leading_strip)
  qed
  then show ?thesis unfolding t_def by (rule strip_empty_blank)
qed

lemma blank_iff_trim: "blank s \<longleftrightarrow> trim s = []"
  using blank_trim trim_empty_blank by blast

text \<open>
  Claim C3. When the input is empty or made of white space only, sending does nothing:
  sendChatMessage leaves the whole page as it was, so no message is appended, the send button
  is not disabled and the bridge is not called. In the earlier palette script sendAICommand
  leaves the button and the bridge alone as well; all it does is to show the status line
  \<open>Please enter a command first.\<close>.
\<close>

theorem C3_blank_command_is_not_sent:
  "(blank (chatInput_value st) \<longrightarrow>
      sendChatMessage rt st = st
      \<and> messagesContainer (sendChatMessage rt st) = messagesContainer st
      \<and> messageHistory (sendChatMessage rt st) = messageHistory st
      \<and> sendBtn_disabled (sendChatMessage rt st) = sendBtn_disabled st
      \<and> sent (sendChatMessage rt st) = sent st)
   \<and> (blank (aiCommandInput_value p) \<longrightarrow>
      sendAICommand rt p = showStatus ''Please enter a command first.'' ''error'' p
      \<and> aiSubmitBtn_disabled (sendAICommand rt p) = aiSubmitBtn_disabled p
      \<and> aiResponse_innerHTML (sendAICommand rt p) = aiResponse_innerHTML p
      \<and> sent (sendAICommand rt p) = sent p)"
  by (simp add: sendChatMessage_def sendAICommand_def blank_trim showStatus_def Let_def)

lemma blank_spaces: "blank [CHR 0x20, CHR 0x09, CHR 0xC2, CHR 0xA0, CHR 0x0A]"
  by code_simp

theorem C3_blank_command_is_not_sent_witness:
  "blank (chatInput_value (typed [CHR 0x20, CHR 0x09, CHR 0xC2, CHR 0xA0, CHR 0x0A]))
   \<and> sendChatMessage sample_runtime (typed [CHR 0x20, CHR 0x09, CHR 0xC2, CHR 0xA0, CHR 0x0A])
       = typed [CHR 0x20, CHR 0x09, CHR 0xC2, CHR 0xA0, CHR 0x0A]
   \<and> blank (aiCommandInput_value (form []))
   \<and> aiSubmitBtn_disabled (sendAICommand sample_runtime (form [])) = False
   \<and> sent (sendAICommand sample_runtime (form [])) = []"
proof -
  have a: "blank (chatInput_value (typed [CHR 0x20, CHR 0x09, CHR 0xC2, CHR 0xA0, CHR 0x0A]))"
    by (simp add: typed_def blank_spaces)
  have b: "blank (aiCommandInput_value (form []))"
    by (simp add: form_def blank.simps)
  from C3_blank_command_is_not_sent
    [of "typed [CHR 0x20, CHR 0x09, CHR 0xC2, CHR 0xA0, CHR 0x0A]" sample_runtime "form []"] a b
  show ?thesis by (simp add: form_def showStatus_def Let_def)
qed

lemma promise_chain_finally:
  assumes "\<And>s. P (snd (h s))"
  shows "P (snd (promise_chain f g h out st))"
proof -
  have "\<exists>s. snd (promise_chain f g h out st) = snd (h s)"
    by (auto simp: promise_chain_def Let_def split: prod.splits) (metis snd_conv)
  with assms show ?thesis by auto
qed

text \<open>
  Claim C2. A command that is not empty after trimming disables the send button and leaves one
  call pending. When the host settles a call, the button ends enabled, whatever the page was
  at that moment and whether the call was resolved (with any reply, JSON or not) or rejected.
  This does not depend on what the other two handlers do: with any handlers in the places of
  \<open>then\<close> and \<open>catch\<close>, throwing or not, the chain ends by enabling the button. The same holds
  for the submit button of the earlier palette script.
\<close>

theorem C2_send_button_enabled_after_settling:
  "(trim (chatInput_value st) \<noteq> [] \<longrightarrow>
      sendBtn_disabled (sendChatMessage rt st)
      \<and> pending (sendChatMessage rt st) = Suc (pending st))
   \<and> \<not> sendBtn_disabled (settle rt out st')
   \<and> \<not> sendBtn_disabled (snd (promise_chain f g on_finally out st'))
   \<and> (trim (aiCommandInput_value p) \<noteq> [] \<longrightarrow>
      aiSubmitBtn_disabled (sendAICommand rt p)
      \<and> pending (sendAICommand rt p) = Suc (pending p))
   \<and> \<not> aiSubmitBtn_disabled (palette_settle rt out p')
   \<and> \<not> aiSubmitBtn_disabled (snd (promise_chain f' g' palette_on_finally out p'))"
proof -
  have chat: "\<not> sendBtn_disabled (snd (promise_chain f g on_finally out s))" for f g s
    by (rule promise_chain_finally) (simp add: on_finally_def)
  have pal: "\<not> aiSubmitBtn_disabled (snd (promise_chain f g palette_on_finally out s))" for f g s
    by (rule promise_chain_finally) (simp add: palette_on_finally_def)
  have "trim (chatInput_value st) \<noteq> [] \<longrightarrow>
      sendBtn_disabled (sendChatMessage rt st)
      \<and> pending (sendChatMessage rt st) = Suc (pending st)"
    by (simp add: sendChatMessage_def Let_def addMessage_def addStatusMessage_def
        getDateString_def generateSessionId_def)
  moreover have "trim (aiCommandInput_value p) \<noteq> [] \<longrightarrow>
      aiSubmitBtn_disabled (sendAICommand rt p)
      \<and> pending (sendAICommand rt p) = Suc (pending p)"
    by (simp add: sendAICommand_def Let_def showStatus_def getDateString_def
        generateSessionId_def split: option.splits)
  moreover have "\<not> sendBtn_disabled (settle rt out st')"
    using chat [of "on_result rt" "on_error rt" st'] by (simp add: settle_def Let_def)
  moreover have "\<not> aiSubmitBtn_disabled (palette_settle rt out p')"
    using pal [of "palette_on_result rt" palette_on_error p'] by (simp add: palette_settle_def Let_def)
  ultimately show ?thesis using chat pal by blast
qed

lemma trim_samples:
  "trim ''Create a 20mm cube'' = ''Create a 20mm cube''" "trim ''gear'' = ''gear''"
  by code_simp+

theorem C2_send_button_enabled_after_settling_witness:
  "trim (chatInput_value (typed ''Create a 20mm cube'')) \<noteq> []
   \<and> sendBtn_disabled (sendChatMessage sample_runtime (typed ''Create a 20mm cube''))
   \<and> pending (sendChatMessage sample_runtime (typed ''Create a 20mm cube'')) = 1
   \<and> \<not> sendBtn_disabled (settle sample_runtime (Resolved ''hello'') waiting)
   \<and> \<not> sendBtn_disabled (settle sample_runtime Rejected waiting)
   \<and> trim (aiCommandInput_value (form ''gear'')) \<noteq> []
   \<and> aiSubmitBtn_disabled (sendAICommand sample_runtime (form ''gear''))
   \<and> \<not> aiSubmitBtn_disabled
        (palette_settle sample_runtime Rejected (sendAICommand sample_runtime (form ''gear'')))"
proof -
  have a: "trim (chatInput_value (typed ''Create a 20mm cube'')) \<noteq> []"
    by (simp add: typed_def trim_samples)
  have b: "trim (aiCommandInput_value (form ''gear'')) \<noteq> []"
    by (simp add: form_def trim_samples)
  from a b
    C2_send_button_enabled_after_settling
      [where st = "typed ''Create a 20mm cube''" and rt = sample_runtime
         and out = "Resolved ''hello''" and st' = waiting and p = "form ''gear''"
         and p' = "sendAICommand sample_runtime (form ''gear'')"]
    C2_send_button_enabled_after_settling
      [where st = "typed ''Create a 20mm cube''" and rt = sample_runtime
         and out = Rejected and st' = waiting and p = "form ''gear''"
         and p' = "sendAICommand sample_runtime (form ''gear'')"]
  show ?thesis by (simp add: typed_def initial_def)
qed

section \<open>The inbound handler\<close>

lemma updateMessage_thrown:
  "fst (updateMessage rt data st) = Some err \<Longrightarrow> snd (updateMessage rt data st) = st"
  by (simp add: updateMessage_def split: sum.splits)

lemma palette_updateMessage_thrown:
  "fst (palette_updateMessage rt data p) = Some err \<Longrightarrow> snd (palette_updateMessage rt data p) = p"
  by (simp add: palette_updateMessage_def split: sum.splits)

lemma handle_updateMessage:
  "handle rt ''updateMessage'' data st = (''OK'', snd (updateMessage rt data st))"
  by (cases "updateMessage rt data st") (simp add: handle_def split: option.splits)

lemma palette_handle_updateMessage:
  "palette_handle rt ''updateMessage'' data p = (''OK'', snd (palette_updateMessage rt data p))"
  by (cases "palette_updateMessage rt data p") (simp add: palette_handle_def split: option.splits)

text \<open>
  Claim C1. The inbound handler is a total function into strings (every exception of its
  dispatch is modelled, and none leaves it). For the actions \<open>updateMessage\<close>, \<open>aiResponse\<close>
  and \<open>debugger\<close> it returns \<open>OK\<close>; for any other action it returns
  \<open>Unexpected command type: \<close> followed by the action, which is not \<open>OK\<close>, and leaves the
  page as it was, so no message is appended. When the dispatch of \<open>updateMessage\<close> throws
  (the other two cannot), the exception is swallowed: the handler returns \<open>OK\<close> and the page
  is unchanged. The handler of the earlier palette script does the same.
\<close>

theorem C1_inbound_handler_returns:
  "fst (handle rt action data st)
      = (if action = ''updateMessage'' \<or> action = ''aiResponse'' \<or> action = ''debugger''
         then ''OK'' else ''Unexpected command type: '' @ action)
   \<and> (action \<noteq> ''updateMessage'' \<and> action \<noteq> ''aiResponse'' \<and> action \<noteq> ''debugger'' \<longrightarrow>
        fst (handle rt action data st) \<noteq> ''OK'' \<and> snd (handle rt action data st) = st)
   \<and> (fst (updateMessage rt data st) = Some err \<longrightarrow>
        handle rt ''updateMessage'' data st = (''OK'', st))
   \<and> fst (palette_handle rt action data p)
      = (if action = ''updateMessage'' \<or> action = ''aiResponse'' \<or> action = ''debugger''
         then ''OK'' else ''Unexpected command type: '' @ action)
   \<and> (action \<noteq> ''updateMessage'' \<and> action \<noteq> ''aiResponse'' \<and> action \<noteq> ''debugger'' \<longrightarrow>
        fst (palette_handle rt action data p) \<noteq> ''OK'' \<and> snd (palette_handle rt action data p) = p)
   \<and> (fst (palette_updateMessage rt data p) = Some err' \<longrightarrow>
        palette_handle rt ''updateMessage'' data p = (''OK'', p))"
proof -
  have known: "fst (handle rt ''updateMessage'' data st) = ''OK''"
    "fst (palette_handle rt ''updateMessage'' data p) = ''OK''"
    by (simp_all add: handle_updateMessage palette_handle_updateMessage)
  have "fst (handle rt action data st)
      = (if action = ''updateMessage'' \<or> action = ''aiResponse'' \<or> action = ''debugger''
         then ''OK'' else ''Unexpected command type: '' @ action)"
    using known(1) by (cases "action = ''updateMessage''") (simp_all add: handle_def)
  moreover have "fst (palette_handle rt action data p)
      = (if action = ''updateMessage'' \<or> action = ''aiResponse'' \<or> action = ''debugger''
         then ''OK'' else ''Unexpected command type: '' @ action)"
    using known(2) by (cases "action = ''updateMessage''") (simp_all add: palette_handle_def)
  moreover have "action \<noteq> ''updateMessage'' \<and> action \<noteq> ''aiResponse'' \<and> action \<noteq> ''debugger'' \<longrightarrow>
      fst (handle rt action data st) \<noteq> ''OK'' \<and> snd (handle rt action data st) = st"
    by (simp add: handle_def)
  moreover have "action \<noteq> ''updateMessage'' \<and> action \<noteq> ''aiResponse'' \<and> action \<noteq> ''debugger'' \<longrightarrow>
      fst (palette_handle rt action data p) \<noteq> ''OK'' \<and> snd (palette_handle rt action data p) = p"
    by (simp add: palette_handle_def)
  moreover have "fst (updateMessage rt data st) = Some err \<longrightarrow>
      handle rt ''updateMessage'' data st = (''OK'', st)"
    by (simp add: handle_updateMessage updateMessage_thrown)
  moreover have "fst (palette_updateMessage rt data p) = Some err' \<longrightarrow>
      palette_handle rt ''updateMessage'' data p = (''OK'', p)"
    by (simp add: palette_handle_updateMessage palette_updateMessage_thrown)
  ultimately show ?thesis by blast
qed

lemma parse_garbled: "JSON_parse ''garbled'' = Inl SyntaxError"
  by code_simp

theorem C1_inbound_handler_returns_witness:
  "handle sample_runtime ''reset'' ''{}'' initial = (''Unexpected command type: reset'', initial)
   \<and> fst (updateMessage sample_runtime ''garbled'' initial) = Some SyntaxError
   \<and> handle sample_runtime ''updateMessage'' ''garbled'' initial = (''OK'', initial)
   \<and> palette_handle sample_runtime ''reset'' ''{}'' (form []) = (''Unexpected command type: reset'', form [])
   \<and> fst (palette_updateMessage sample_runtime ''garbled'' (form [])) = Some SyntaxError
   \<and> palette_handle sample_runtime ''updateMessage'' ''garbled'' (form []) = (''OK'', form [])"
proof -
  have a: "fst (updateMessage sample_runtime ''garbled'' initial) = Some SyntaxError"
    by (simp add: updateMessage_def parse_garbled)
  have b: "fst (palette_updateMessage sample_runtime ''garbled'' (form [])) = Some SyntaxError"
    by (simp add: palette_updateMessage_def parse_garbled)
  from a b
    C1_inbound_handler_returns
      [where rt = sample_runtime and action = "''reset''" and data = "''{}''" and st = initial
         and p = "form []"]
    C1_inbound_handler_returns
      [where rt = sample_runtime and action = "''updateMessage''" and data = "''garbled''"
         and st = initial and p = "form []" and err = SyntaxError and err' = SyntaxError]
  show ?thesis by (simp add: prod_eq_iff)
qed

end
